theory Spec2Isabelle
  imports Complex_Main "HOL-Library.Word"
begin

section \<open>Data model of SceneManager.cpp\<close>

text \<open>
  The C++ \<open>float\<close> values of the scene (scales, angles, positions, colours) are
  modelled by the real numbers their literals denote, and \<open>+\<close> on them is addition of
  reals: rounding is not modelled. Console output (\<open>std::cout\<close>) is not modelled
  either. Everything the code asks of its collaborators (the shader manager, the mesh
  library, OpenGL, stb_image) is an \<open>event\<close>; a method returns the events it issues,
  in order.
\<close>

datatype vec2 = vec2 real real
datatype vec3 = vec3 real real real
datatype vec4 = vec4 real real real real

text \<open>
  Matrices are kept as the glm expressions that build them, so that the scale, the three
  angles and the translation handed to \<open>setMat4Value\<close> stay visible.
\<close>

datatype angle = radians real

datatype mat4 =
    glm_scale vec3
  | glm_rotate angle vec3
  | glm_translate vec3
  | mat_mul mat4 mat4

datatype BoxSide =
    BoxSide_top | BoxSide_left | BoxSide_right | BoxSide_back | BoxSide_front | BoxSide_bottom

datatype GLenum =
    GL_TEXTURE_2D | GL_TEXTURE_WRAP_S | GL_TEXTURE_WRAP_T
  | GL_TEXTURE_MIN_FILTER | GL_TEXTURE_MAG_FILTER | GL_REPEAT | GL_LINEAR
  | GL_RGB8 | GL_RGB | GL_RGBA8 | GL_RGBA | GL_UNSIGNED_BYTE

datatype event =
    setMat4Value string mat4
  | setIntValue string int
  | setBoolValue string bool
  | setVec4Value string vec4
  | setVec3Value string vec3
  | setVec2Value string vec2
  | setFloatValue string real
  | setSampler2DValue string int
  | LoadPlaneMesh
  | LoadTaperedCylinderMesh
  | LoadTorusMesh
  | LoadBoxMesh
  | LoadCylinderMesh
  | LoadSphereMesh
  | DrawPlaneMesh
  | DrawBoxMesh
  | DrawBoxMeshSide BoxSide
  | DrawCylinderMesh
  | DrawTaperedCylinderMesh bool bool bool
  | DrawTorusMesh
  | DrawHalfTorusMesh
  | DrawSphereMesh
  | stbi_set_flip_vertically_on_load bool
  | stbi_image_free
  | glGenTextures int
  | glBindTexture GLenum "32 word"
  | glTexParameteri GLenum GLenum GLenum
  | glTexImage2D GLenum int GLenum int int int GLenum GLenum
  | glGenerateMipmap GLenum
  | glActiveTexture int

text \<open>
  \<open>OBJECT_MATERIAL\<close> and \<open>TEXTURE_INFO\<close> are declared in SceneManager.h; the
  fields are the ones SceneManager.cpp reads and writes. \<open>ID\<close> is a \<open>GLuint\<close>
  (its address is passed to \<open>glGenTextures\<close>).
\<close>

record OBJECT_MATERIAL =
  diffuseColor :: vec3
  specularColor :: vec3
  shininess :: real
  tag :: string

record TEXTURE_INFO =
  ID :: "32 word"
  tag :: string

datatype pointer = NULL | Object

record SceneManager =
  m_pShaderManager :: pointer
  m_textureIDs :: "TEXTURE_INFO list"
  m_loadedTextures :: int
  m_objectMaterials :: "OBJECT_MATERIAL list"

text \<open>
  \<open>m_textureIDs\<close> is a C array: the list has the array's length (its capacity), and
  \<open>m_loadedTextures\<close> counts the slots in use. The vector \<open>m_objectMaterials\<close>
  is the list of its elements.

  The count and the loop indices are C++ \<open>int\<close>s, modelled as integers: an index
  is only incremented while it is below the count, and the one increment of the count
  itself is checked against \<open>INT_MAX\<close>.

  What C++ leaves undefined is a result of its own.
\<close>

datatype undefined_behaviour = OutOfBounds | SignedOverflow | NullDereference

text \<open>
  The environment: what \<open>stbi_load\<close> finds for a file name (\<open>None\<close> when the
  image cannot be read), and the texture names \<open>glGenTextures\<close> hands out, the
  \<open>n\<close>-th call returning \<open>gl_name n\<close>.
\<close>

record image =
  width :: int
  height :: int
  colorChannels :: int

record world =
  stbi_load :: "string \<Rightarrow> image option"
  gl_name :: "nat \<Rightarrow> 32 word"
  gl_generated :: nat

definition g_ModelName :: string where "g_ModelName = ''model''"
definition g_ColorValueName :: string where "g_ColorValueName = ''objectColor''"
definition g_TextureValueName :: string where "g_TextureValueName = ''objectTexture''"
definition g_UseTextureName :: string where "g_UseTextureName = ''bUseTexture''"
definition g_UseLightingName :: string where "g_UseLightingName = ''bUseLighting''"

definition INT_MAX :: int where "INT_MAX = 2147483647"

section \<open>The texture registry\<close>

text \<open>
  \<open>CreateGLTexture\<close>: the result is the returned flag, the events issued, and the
  environment and the object afterwards. The early \<open>return false\<close> for an image with
  neither 3 nor 4 channels leaves before the image is freed and before the registry is
  touched. The registry write has no bounds check in the source.
\<close>

definition CreateGLTexture ::
  "string \<Rightarrow> string \<Rightarrow> world \<Rightarrow> SceneManager
    \<Rightarrow> undefined_behaviour + (bool \<times> event list \<times> world \<times> SceneManager)" where
  "CreateGLTexture filename tg w s =
    (case stbi_load w filename of
       Some img \<Rightarrow>
         (let textureID = gl_name w (gl_generated w);
              w' = w\<lparr>gl_generated := gl_generated w + 1\<rparr>;
              es = [stbi_set_flip_vertically_on_load True,
                    glGenTextures 1,
                    glBindTexture GL_TEXTURE_2D textureID,
                    glTexParameteri GL_TEXTURE_2D GL_TEXTURE_WRAP_S GL_REPEAT,
                    glTexParameteri GL_TEXTURE_2D GL_TEXTURE_WRAP_T GL_REPEAT,
                    glTexParameteri GL_TEXTURE_2D GL_TEXTURE_MIN_FILTER GL_LINEAR,
                    glTexParameteri GL_TEXTURE_2D GL_TEXTURE_MAG_FILTER GL_LINEAR]
          in if colorChannels img = 3 \<or> colorChannels img = 4 then
               (let es' = es @
                      [if colorChannels img = 3
                       then glTexImage2D GL_TEXTURE_2D 0 GL_RGB8 (width img) (height img) 0
                              GL_RGB GL_UNSIGNED_BYTE
                       else glTexImage2D GL_TEXTURE_2D 0 GL_RGBA8 (width img) (height img) 0
                              GL_RGBA GL_UNSIGNED_BYTE,
                       glGenerateMipmap GL_TEXTURE_2D,
                       stbi_image_free,
                       glBindTexture GL_TEXTURE_2D 0];
                    i = m_loadedTextures s
                in if i < 0 \<or> int (length (m_textureIDs s)) \<le> i then Inl OutOfBounds
                   else if i = INT_MAX then Inl SignedOverflow
                   else Inr (True, es', w',
                          s\<lparr>m_textureIDs :=
                               (m_textureIDs s)[nat i :=
                                  (m_textureIDs s ! nat i)\<lparr>ID := textureID, tag := tg\<rparr>],
                             m_loadedTextures := i + 1\<rparr>))
             else Inr (False, es, w', s))
     | None \<Rightarrow> Inr (False, [stbi_set_flip_vertically_on_load True], w, s))"




text \<open>
  \<open>DestroyGLTextures\<close>: the loop body is \<open>glGenTextures(1, &m_textureIDs[i].ID)\<close>,
  which stores a newly generated name in the slot.
\<close>

function DestroyGLTextures_for ::
  "int \<Rightarrow> event list \<Rightarrow> world \<Rightarrow> SceneManager
    \<Rightarrow> undefined_behaviour + (event list \<times> world \<times> SceneManager)" where
  "DestroyGLTextures_for i es w s =
    (if i < m_loadedTextures s then
       (if i < 0 \<or> int (length (m_textureIDs s)) \<le> i then Inl OutOfBounds
        else DestroyGLTextures_for (i + 1) (es @ [glGenTextures 1])
               (w\<lparr>gl_generated := gl_generated w + 1\<rparr>)
               (s\<lparr>m_textureIDs :=
                    (m_textureIDs s)[nat i :=
                       (m_textureIDs s ! nat i)\<lparr>ID := gl_name w (gl_generated w)\<rparr>]\<rparr>))
     else Inr (es, w, s))"
  by pat_completeness auto
termination
  by (relation "measure (\<lambda>(i, es, w, s). nat (m_loadedTextures s - i))") auto

declare DestroyGLTextures_for.simps [simp del]

definition DestroyGLTextures ::
  "world \<Rightarrow> SceneManager \<Rightarrow> undefined_behaviour + (event list \<times> world \<times> SceneManager)" where
  "DestroyGLTextures w s = DestroyGLTextures_for 0 [] w s"

text \<open>
  \<open>FindTextureID\<close> and \<open>FindTextureSlot\<close>: the \<open>while\<close> loop with its three
  variables. The \<open>GLuint\<close> ID is returned as an \<open>int\<close> (\<open>sint\<close>: the same 32 bits).
\<close>

function FindTextureID_while ::
  "SceneManager \<Rightarrow> string \<Rightarrow> int \<Rightarrow> int \<Rightarrow> bool \<Rightarrow> undefined_behaviour + int" where
  "FindTextureID_while s tg textureID index bFound =
    (if index < m_loadedTextures s \<and> bFound = False then
       (if index < 0 \<or> int (length (m_textureIDs s)) \<le> index then Inl OutOfBounds
        else if tag (m_textureIDs s ! nat index) = tg
          then FindTextureID_while s tg (sint (ID (m_textureIDs s ! nat index))) index True
          else FindTextureID_while s tg textureID (index + 1) bFound)
     else Inr textureID)"
  by pat_completeness auto
termination
  by (relation "measure (\<lambda>(s, tg, textureID, index, bFound).
        nat (2 * (m_loadedTextures s - index)) + (if bFound then 0 else 1))") auto

declare FindTextureID_while.simps [simp del]

definition FindTextureID :: "SceneManager \<Rightarrow> string \<Rightarrow> undefined_behaviour + int" where
  "FindTextureID s tg = FindTextureID_while s tg (- 1) 0 False"

function FindTextureSlot_while ::
  "SceneManager \<Rightarrow> string \<Rightarrow> int \<Rightarrow> int \<Rightarrow> bool \<Rightarrow> undefined_behaviour + int" where
  "FindTextureSlot_while s tg textureSlot index bFound =
    (if index < m_loadedTextures s \<and> bFound = False then
       (if index < 0 \<or> int (length (m_textureIDs s)) \<le> index then Inl OutOfBounds
        else if tag (m_textureIDs s ! nat index) = tg
          then FindTextureSlot_while s tg index index True
          else FindTextureSlot_while s tg textureSlot (index + 1) bFound)
     else Inr textureSlot)"
  by pat_completeness auto
termination
  by (relation "measure (\<lambda>(s, tg, textureSlot, index, bFound).
        nat (2 * (m_loadedTextures s - index)) + (if bFound then 0 else 1))") auto

declare FindTextureSlot_while.simps [simp del]

definition FindTextureSlot :: "SceneManager \<Rightarrow> string \<Rightarrow> undefined_behaviour + int" where
  "FindTextureSlot s tg = FindTextureSlot_while s tg (- 1) 0 False"

section \<open>The material registry\<close>

text \<open>
  \<open>FindMaterial\<close>: the flag returned and the out-parameter \<open>material\<close> afterwards.
  Only three fields are copied; the tag of \<open>material\<close> is not written.
\<close>

function FindMaterial_while ::
  "SceneManager \<Rightarrow> string \<Rightarrow> OBJECT_MATERIAL \<Rightarrow> int \<Rightarrow> bool \<Rightarrow> OBJECT_MATERIAL" where
  "FindMaterial_while s tg material index bFound =
    (if index < int (length (m_objectMaterials s)) \<and> bFound = False then
       (if OBJECT_MATERIAL.tag (m_objectMaterials s ! nat index) = tg
          then FindMaterial_while s tg
                 (material\<lparr>diffuseColor := diffuseColor (m_objectMaterials s ! nat index),
                           specularColor := specularColor (m_objectMaterials s ! nat index),
                           shininess := shininess (m_objectMaterials s ! nat index)\<rparr>)
                 index True
          else FindMaterial_while s tg material (index + 1) bFound)
     else material)"
  by pat_completeness auto
termination
  by (relation "measure (\<lambda>(s, tg, material, index, bFound).
        nat (2 * (int (length (m_objectMaterials s)) - index)) + (if bFound then 0 else 1))") auto

declare FindMaterial_while.simps [simp del]

definition FindMaterial ::
  "SceneManager \<Rightarrow> string \<Rightarrow> OBJECT_MATERIAL \<Rightarrow> bool \<times> OBJECT_MATERIAL" where
  "FindMaterial s tg material =
    (if length (m_objectMaterials s) = 0 then (False, material)
     else (True, FindMaterial_while s tg material 0 False))"

section \<open>Setting shader values\<close>

text \<open>
  A rendering method does not change the object: it maps the object to the events it
  issues. The first argument of an \<open>action\<close> is the value of a default-constructed
  \<open>OBJECT_MATERIAL\<close> (the struct is declared in SceneManager.h): it is what the
  local variable \<open>material\<close> of \<open>SetShaderMaterial\<close> holds before
  \<open>FindMaterial\<close> writes to it.
\<close>

type_synonym action = "OBJECT_MATERIAL \<Rightarrow> SceneManager \<Rightarrow> undefined_behaviour + event list"

definition andThen ::
  "undefined_behaviour + event list \<Rightarrow> undefined_behaviour + event list
    \<Rightarrow> undefined_behaviour + event list" where
  "andThen r r' =
    (case r of Inl e \<Rightarrow> Inl e
     | Inr es \<Rightarrow> (case r' of Inl e \<Rightarrow> Inl e | Inr es' \<Rightarrow> Inr (es @ es')))"

fun run :: "action list \<Rightarrow> action" where
  "run [] dflt s = Inr []"
| "run (a # as) dflt s = andThen (a dflt s) (run as dflt s)"

definition SetTransformations :: "vec3 \<Rightarrow> real \<Rightarrow> real \<Rightarrow> real \<Rightarrow> vec3 \<Rightarrow> action" where
  "SetTransformations scaleXYZ XrotationDegrees YrotationDegrees ZrotationDegrees positionXYZ
      dflt s =
    (let scale = glm_scale scaleXYZ;
         rotationX = glm_rotate (radians XrotationDegrees) (vec3 1 0 0);
         rotationY = glm_rotate (radians YrotationDegrees) (vec3 0 1 0);
         rotationZ = glm_rotate (radians ZrotationDegrees) (vec3 0 0 1);
         translation = glm_translate positionXYZ;
         modelView =
           mat_mul (mat_mul (mat_mul (mat_mul translation rotationZ) rotationY) rotationX) scale
     in if m_pShaderManager s \<noteq> NULL then Inr [setMat4Value g_ModelName modelView]
        else Inr [])"

definition SetShaderColor :: "real \<Rightarrow> real \<Rightarrow> real \<Rightarrow> real \<Rightarrow> action" where
  "SetShaderColor redColorValue greenColorValue blueColorValue alphaValue dflt s =
    (let currentColor = vec4 redColorValue greenColorValue blueColorValue alphaValue
     in if m_pShaderManager s \<noteq> NULL
        then Inr [setIntValue g_UseTextureName 0, setVec4Value g_ColorValueName currentColor]
        else Inr [])"

definition SetShaderTexture :: "string \<Rightarrow> action" where
  "SetShaderTexture textureTag dflt s =
    (if m_pShaderManager s \<noteq> NULL then
       (case FindTextureSlot s textureTag of
          Inl e \<Rightarrow> Inl e
        | Inr textureID \<Rightarrow>
            Inr [setIntValue g_UseTextureName 1,
                 setSampler2DValue g_TextureValueName textureID])
     else Inr [])"

definition SetTextureUVScale :: "real \<Rightarrow> real \<Rightarrow> action" where
  "SetTextureUVScale u v dflt s =
    (if m_pShaderManager s \<noteq> NULL then Inr [setVec2Value ''UVscale'' (vec2 u v)]
     else Inr [])"

text \<open>\<open>SetShaderMaterial\<close> uses the shader manager without testing it for \<open>NULL\<close>.\<close>

definition SetShaderMaterial :: "string \<Rightarrow> action" where
  "SetShaderMaterial materialTag dflt s =
    (if length (m_objectMaterials s) > 0 then
       (case FindMaterial s materialTag dflt of
          (bReturn, material) \<Rightarrow>
            if bReturn = True then
              (if m_pShaderManager s = NULL then Inl NullDereference
               else Inr [setVec3Value ''material.diffuseColor'' (diffuseColor material),
                         setVec3Value ''material.specularColor'' (specularColor material),
                         setFloatValue ''material.shininess'' (shininess material)])
            else Inr [])
     else Inr [])"

text \<open>A call \<open>m_basicMeshes->DrawXMesh()\<close>.\<close>

definition m_basicMeshes :: "event \<Rightarrow> action" where
  "m_basicMeshes call dflt s = Inr [call]"

section \<open>Scene set-up\<close>




text \<open>\<open>SetupSceneLights\<close> uses the shader manager without testing it for \<open>NULL\<close>.\<close>

definition SetupSceneLights :: "SceneManager \<Rightarrow> undefined_behaviour + event list" where
  "SetupSceneLights s =
    (if m_pShaderManager s = NULL then Inl NullDereference
     else Inr
      [setBoolValue g_UseLightingName True,
       setVec3Value ''pointLights[0].position'' (vec3 0 20 20),
       setVec3Value ''pointLights[0].ambient'' (vec3 0.1 0.1 0.1),
       setVec3Value ''pointLights[0].diffuse'' (vec3 0.4 0.4 0.4),
       setVec3Value ''pointLights[0].specular'' (vec3 0.01 0.01 0.01),
       setBoolValue ''pointLights[0].bActive'' True,
       setVec3Value ''pointLights[1].position'' (vec3 (- 4) 5.5 (- 2.5)),
       setVec3Value ''pointLights[1].ambient'' (vec3 0.4 0.4 0.4),
       setVec3Value ''pointLights[1].diffuse'' (vec3 0.5 0.5 0.5),
       setVec3Value ''pointLights[1].specular'' (vec3 0.01 0.01 0.01),
       setBoolValue ''pointLights[1].bActive'' True,
       setVec3Value ''pointLights[2].position'' (vec3 (- 6) 5.5 (- 1.5)),
       setVec3Value ''pointLights[2].ambient'' (vec3 0.4 0.4 0.4),
       setVec3Value ''pointLights[2].diffuse'' (vec3 0.5 0.5 0.5),
       setVec3Value ''pointLights[2].specular'' (vec3 0.01 0.01 0.01),
       setBoolValue ''pointLights[2].bActive'' True])"


section \<open>Placing the objects\<close>

text \<open>
  Every part of a placement routine assigns \<open>scaleXYZ\<close>, the three rotation angles
  and \<open>positionXYZ\<close>, hands them to \<open>SetTransformations\<close>, sets UV scale,
  texture or colour and material, and draws a mesh. In the model the assigned values stand
  as the arguments of \<open>SetTransformations\<close>; the statements keep their order. The
  mesh object behind \<open>m_basicMeshes\<close> is allocated by the constructor, so the calls
  through it are not guarded.
\<close>

definition LoadLamp :: "real \<Rightarrow> real \<Rightarrow> real \<Rightarrow> action" where
  "LoadLamp xPosition yPosition zPosition =
    run [
     SetTransformations (vec3 0.75 1 0.75) 0 0 0 (vec3 (- 4.2 + xPosition) (5.3 + yPosition) (- 1.6 + zPosition)),
     SetTextureUVScale 4 1,
     SetShaderTexture ''lamp-shade'',
     SetShaderMaterial ''cloth'',
     m_basicMeshes (DrawTaperedCylinderMesh False False True),
     SetTransformations (vec3 0.35 0.35 0.1) 90 0 0 (vec3 (- 4.20 + xPosition) (6.3 + yPosition) (- 1.6 + zPosition)),
     SetTextureUVScale 4 1,
     SetShaderTexture ''lamp-rim'',
     SetShaderMaterial ''metal'',
     m_basicMeshes DrawTorusMesh,
     SetTransformations (vec3 0.65 0.65 0.1) 90 0 0 (vec3 (- 4.20 + xPosition) (5.3 + yPosition) (- 1.6 + zPosition)),
     SetTextureUVScale 4 1,
     SetShaderTexture ''lamp-rim'',
     SetShaderMaterial ''metal'',
     m_basicMeshes DrawTorusMesh,
     SetTransformations (vec3 0.05 0.75 0.05) 0 0 0 (vec3 (- 4.20 + xPosition) (4.85 + yPosition) (- 1.6 + zPosition)),
     SetTextureUVScale 4 1,
     SetShaderTexture ''lamp-rim'',
     SetShaderMaterial ''metal'',
     m_basicMeshes DrawCylinderMesh,
     SetTransformations (vec3 0.025 1 0.025) 160 0 0 (vec3 (- 4.20 + xPosition) (4.85 + yPosition) (- 1.6 + zPosition)),
     SetTextureUVScale 4 1,
     SetShaderTexture ''lamp-rim'',
     SetShaderMaterial ''metal'',
     m_basicMeshes DrawCylinderMesh,
     SetTransformations (vec3 0.025 1 0.025) 160 120 0 (vec3 (- 4.20 + xPosition) (4.85 + yPosition) (- 1.6 + zPosition)),
     SetTextureUVScale 4 1,
     SetShaderTexture ''lamp-rim'',
     SetShaderMaterial ''metal'',
     m_basicMeshes DrawCylinderMesh,
     SetTransformations (vec3 0.025 1 0.025) 160 240 0 (vec3 (- 4.20 + xPosition) (4.85 + yPosition) (- 1.6 + zPosition)),
     SetTextureUVScale 4 1,
     SetShaderTexture ''lamp-rim'',
     SetShaderMaterial ''metal'',
     m_basicMeshes DrawCylinderMesh]"

definition LoadMonitor :: "real \<Rightarrow> real \<Rightarrow> real \<Rightarrow> action" where
  "LoadMonitor xPosition yPosition zPosition =
    run [
     SetTransformations (vec3 3 2 0.25) 0 0 0 (vec3 (0 + xPosition) (4.068 + yPosition) (5.005 + zPosition)),
     SetTextureUVScale 4 1,
     SetShaderColor 0.1 0.1 0.1 1,
     SetShaderMaterial ''plastic'',
     m_basicMeshes DrawBoxMesh,
     SetTransformations (vec3 3 0.25 0.25) 0 0 0 (vec3 (0 + xPosition) (3 + yPosition) (5 + zPosition)),
     SetTextureUVScale 4 1,
     SetShaderTexture ''plastic'',
     SetShaderMaterial ''plastic'',
     m_basicMeshes DrawBoxMesh,
     SetTransformations (vec3 3 0.25 0.25) 0 0 0 (vec3 (0 + xPosition) (5 + yPosition) (5 + zPosition)),
     SetTextureUVScale 4 1,
     SetShaderTexture ''plastic'',
     SetShaderMaterial ''plastic'',
     m_basicMeshes DrawBoxMesh,
     SetTransformations (vec3 0.25 1.9 0.25) 0 0 0 (vec3 (1.5 + xPosition) (4 + yPosition) (5 + zPosition)),
     SetTextureUVScale 4 1,
     SetShaderTexture ''plastic'',
     SetShaderMaterial ''plastic'',
     m_basicMeshes DrawBoxMesh,
     SetTransformations (vec3 0.25 1.9 0.25) 0 0 0 (vec3 (- 1.49 + xPosition) (4 + yPosition) (5 + zPosition)),
     SetTextureUVScale 4 1,
     SetShaderTexture ''plastic'',
     SetShaderMaterial ''plastic'',
     m_basicMeshes DrawBoxMesh,
     SetTransformations (vec3 0.15 0.25 0.25) 90 0 0 (vec3 (- 1.47 + xPosition) (4.878 + yPosition) (4.875 + zPosition)),
     SetTextureUVScale 4 1,
     SetShaderTexture ''plastic'',
     SetShaderMaterial ''plastic'',
     m_basicMeshes DrawCylinderMesh,
     SetTransformations (vec3 0.15 0.25 0.25) 90 0 0 (vec3 (- 1.47 + xPosition) (3.12 + yPosition) (4.87 + zPosition)),
     SetTextureUVScale 4 1,
     SetShaderTexture ''plastic'',
     SetShaderMaterial ''plastic'',
     m_basicMeshes DrawCylinderMesh,
     SetTransformations (vec3 0.15 0.25 0.25) 90 0 0 (vec3 (1.4825 + xPosition) (3.125 + yPosition) (4.87 + zPosition)),
     SetTextureUVScale 4 1,
     SetShaderTexture ''plastic'',
     SetShaderMaterial ''plastic'',
     m_basicMeshes DrawCylinderMesh,
     SetTransformations (vec3 0.15 0.25 0.25) 90 0 0 (vec3 (1.4825 + xPosition) (4.878 + yPosition) (4.87 + zPosition)),
     SetTextureUVScale 4 1,
     SetShaderTexture ''plastic'',
     SetShaderMaterial ''plastic'',
     m_basicMeshes DrawCylinderMesh,
     SetTransformations (vec3 1 0.05 1) 0 0 0 (vec3 (0 + xPosition) (2.55 + yPosition) (5 + zPosition)),
     SetTextureUVScale 4 1,
     SetShaderTexture ''plastic'',
     SetShaderMaterial ''plastic'',
     m_basicMeshes DrawBoxMesh,
     SetTransformations (vec3 1 0.05 1) (- 65) 0 0 (vec3 (0 + xPosition) (3.025 + yPosition) (4.735 + zPosition)),
     SetTextureUVScale 4 1,
     SetShaderTexture ''plastic'',
     SetShaderMaterial ''plastic'',
     m_basicMeshes DrawBoxMesh,
     SetTransformations (vec3 0.03 1 0.03) 0 0 90 (vec3 (0.5 + xPosition) (2.575 + yPosition) (4.53 + zPosition)),
     SetTextureUVScale 4 1,
     SetShaderTexture ''plastic'',
     SetShaderMaterial ''plastic'',
     m_basicMeshes DrawCylinderMesh,
     SetTransformations (vec3 1.55 1.2 1) 90 0 0 (vec3 (0 + xPosition) (4 + yPosition) (4.855 + zPosition)),
     SetTextureUVScale 4 1,
     SetShaderTexture ''plastic'',
     SetShaderMaterial ''plastic'',
     m_basicMeshes DrawPlaneMesh]"

definition GenerateKeyCap :: "real \<Rightarrow> real \<Rightarrow> real \<Rightarrow> action" where
  "GenerateKeyCap xPosition yPosition zPosition =
    run [
     SetTransformations (vec3 0.075 0.075 0.025) (- 80) 0 0 (vec3 (- 0.9 + xPosition) (4.12 + yPosition) (4.85 + zPosition)),
     SetTextureUVScale 4 1,
     SetShaderTexture ''plastic'',
     SetShaderMaterial ''plastic'',
     m_basicMeshes DrawBoxMesh]"

text \<open>
  The key caps of \<open>LoadKeyboard\<close>: three rows of nineteen. \<open>keySpace\<close> is \<open>0\<close>
  when a row starts (it is reset after each row).
\<close>

function LoadKeyboard_for_i ::
  "real \<Rightarrow> real \<Rightarrow> real \<Rightarrow> real \<Rightarrow> real \<Rightarrow> int \<Rightarrow> real \<Rightarrow> action" where
  "LoadKeyboard_for_i xPosition yPosition zPosition yMod zMod i keySpace dflt s =
    (if i < 19 then
       andThen
         (GenerateKeyCap (xPosition + keySpace) (yPosition + yMod) (zPosition + zMod) dflt s)
         (LoadKeyboard_for_i xPosition yPosition zPosition yMod zMod (i + 1) (keySpace + 0.1)
            dflt s)
     else Inr [])"
  by pat_completeness auto
termination
  by (relation "measure (\<lambda>(x, y, z, yMod, zMod, i, keySpace, dflt, s). nat (19 - i))") auto

declare LoadKeyboard_for_i.simps [simp del]

function LoadKeyboard_for_j ::
  "real \<Rightarrow> real \<Rightarrow> real \<Rightarrow> int \<Rightarrow> real \<Rightarrow> real \<Rightarrow> real \<Rightarrow> action" where
  "LoadKeyboard_for_j xPosition yPosition zPosition j keySpace yMod zMod dflt s =
    (if j < 3 then
       andThen
         (LoadKeyboard_for_i xPosition yPosition zPosition yMod zMod 0 keySpace dflt s)
         (LoadKeyboard_for_j xPosition yPosition zPosition (j + 1) 0 (yMod - 0.025)
            (zMod + 0.15) dflt s)
     else Inr [])"
  by pat_completeness auto
termination
  by (relation "measure (\<lambda>(x, y, z, j, keySpace, yMod, zMod, dflt, s). nat (3 - j))") auto

declare LoadKeyboard_for_j.simps [simp del]

definition LoadKeyboard :: "real \<Rightarrow> real \<Rightarrow> real \<Rightarrow> action" where
  "LoadKeyboard xPosition yPosition zPosition =
    run [
     SetTransformations (vec3 2 0.5 0.05) (- 80) 0 0 (vec3 (0 + xPosition) (4.068 + yPosition) (5.005 + zPosition)),
     SetTextureUVScale 4 1,
     SetShaderTexture ''plastic'',
     SetShaderMaterial ''plastic'',
     m_basicMeshes DrawBoxMesh,
     LoadKeyboard_for_j xPosition yPosition zPosition 0 0 0 0,
     SetTransformations (vec3 2 0.15 0.005) (- 120) 0 0 (vec3 (0 + xPosition) (4.068 + yPosition) (4.8 + zPosition)),
     SetTextureUVScale 4 1,
     SetShaderTexture ''plastic'',
     SetShaderMaterial ''plastic'',
     m_basicMeshes DrawBoxMesh]"

definition LoadMouse :: "real \<Rightarrow> real \<Rightarrow> real \<Rightarrow> action" where
  "LoadMouse xPosition yPosition zPosition =
    run [
     SetTransformations (vec3 0.15 0.25 0.1) 90 0 0 (vec3 (- 0.9 + xPosition) (4.12 + yPosition) (4.85 + zPosition)),
     SetTextureUVScale 4 1,
     SetShaderTexture ''plastic'',
     SetShaderMaterial ''plastic'',
     m_basicMeshes DrawSphereMesh,
     SetTransformations (vec3 0.1 0.08 0.2) 0 90 0 (vec3 (- 0.9 + xPosition) (4.14 + yPosition) (4.75 + zPosition)),
     SetTextureUVScale 4 1,
     SetShaderTexture ''plastic'',
     SetShaderMaterial ''plastic'',
     m_basicMeshes DrawHalfTorusMesh]"

definition LoadPhone :: "real \<Rightarrow> real \<Rightarrow> real \<Rightarrow> action" where
  "LoadPhone xPosition yPosition zPosition =
    run [
     SetTransformations (vec3 0.1 0.03 0.5) 0 0 0 (vec3 (- 0.9 + xPosition) (4.12 + yPosition) (4.85 + zPosition)),
     SetTextureUVScale 4 1,
     SetShaderTexture ''plastic'',
     SetShaderMaterial ''plastic'',
     m_basicMeshes DrawBoxMesh,
     SetTransformations (vec3 0.1 0.03 0.5) 0 0 0 (vec3 (- 0.5 + xPosition) (4.12 + yPosition) (4.85 + zPosition)),
     SetTextureUVScale 4 1,
     SetShaderTexture ''plastic'',
     SetShaderMaterial ''plastic'',
     m_basicMeshes DrawBoxMesh,
     SetTransformations (vec3 0.4 0.03 0.1) 0 0 0 (vec3 (- 0.7 + xPosition) (4.12 + yPosition) (4.585 + zPosition)),
     SetTextureUVScale 4 1,
     SetShaderTexture ''plastic'',
     SetShaderMaterial ''plastic'',
     m_basicMeshes DrawBoxMesh,
     SetTransformations (vec3 0.4 0.03 0.1) 0 0 0 (vec3 (- 0.7 + xPosition) (4.12 + yPosition) (5.1 + zPosition)),
     SetTextureUVScale 4 1,
     SetShaderTexture ''plastic'',
     SetShaderMaterial ''plastic'',
     m_basicMeshes DrawBoxMesh,
     SetTransformations (vec3 0.05 0.03 0.05) 0 0 0 (vec3 (- 0.9 + xPosition) (4.10 + yPosition) (5.1 + zPosition)),
     SetTextureUVScale 4 1,
     SetShaderTexture ''plastic'',
     SetShaderMaterial ''plastic'',
     m_basicMeshes DrawCylinderMesh,
     SetTransformations (vec3 0.05 0.03 0.05) 0 0 0 (vec3 (- 0.9010 + xPosition) (4.10 + yPosition) (4.5875 + zPosition)),
     SetTextureUVScale 4 1,
     SetShaderTexture ''plastic'',
     SetShaderMaterial ''plastic'',
     m_basicMeshes DrawCylinderMesh,
     SetTransformations (vec3 0.05 0.03 0.05) 0 0 0 (vec3 (- 0.50 + xPosition) (4.10 + yPosition) (4.59 + zPosition)),
     SetTextureUVScale 4 1,
     SetShaderTexture ''plastic'',
     SetShaderMaterial ''plastic'',
     m_basicMeshes DrawCylinderMesh,
     SetTransformations (vec3 0.05 0.03 0.05) 0 0 0 (vec3 (- 0.50 + xPosition) (4.10 + yPosition) (5.1 + zPosition)),
     SetTextureUVScale 4 1,
     SetShaderTexture ''plastic'',
     SetShaderMaterial ''plastic'',
     m_basicMeshes DrawCylinderMesh,
     SetTransformations (vec3 0.4 0.025 0.55) 0 0 0 (vec3 (- 0.70 + xPosition) (4.125 + yPosition) (4.85 + zPosition)),
     SetTextureUVScale 4 1,
     SetShaderColor 0.2 0.2 0.2 1,
     SetShaderMaterial ''plastic'',
     m_basicMeshes DrawBoxMesh]"

definition LoadBook :: "real \<Rightarrow> real \<Rightarrow> real \<Rightarrow> real \<Rightarrow> real \<Rightarrow> real \<Rightarrow> action" where
  "LoadBook xPosition yPosition zPosition xRotation yRotation zRotation =
    run [
     SetTransformations (vec3 0.05 1.2 1) (0 + xRotation) (0 + yRotation) (0 + zRotation) (vec3 (- 0.2 + xPosition) (4.3 + yPosition) (4.85 + zPosition)),
     SetTextureUVScale 1 1,
     SetShaderTexture ''BookBack'',
     SetShaderMaterial ''BookCover'',
     m_basicMeshes DrawBoxMesh,
     SetTransformations (vec3 0.05 1.2 1) (0 + xRotation) (0 + yRotation) (0 + zRotation) (vec3 (0 + xPosition) (4.3 + yPosition) (4.85 + zPosition)),
     SetTextureUVScale 1 1,
     SetShaderTexture ''BookFront'',
     SetShaderMaterial ''BookCover'',
     m_basicMeshes DrawBoxMesh,
     SetTransformations (vec3 0.25 1.2 0.05) (0 + xRotation) (0 + yRotation) (0 + zRotation) (vec3 (- 0.1025 + xPosition) (4.3 + yPosition) (5.330 + zPosition)),
     SetTextureUVScale 1 1,
     SetShaderTexture ''BookSpine'',
     SetShaderMaterial ''BookCover'',
     m_basicMeshes DrawBoxMesh,
     SetTransformations (vec3 0.17 1.1 0.95) (0 + xRotation) (0 + yRotation) (0 + zRotation) (vec3 (- 0.09 + xPosition) (4.3 + yPosition) (4.85 + zPosition)),
     SetTextureUVScale 1 1,
     SetShaderTexture ''Pages'',
     SetShaderMaterial ''BookCover'',
     m_basicMeshes DrawBoxMesh]"

section \<open>Rendering\<close>

text \<open>The eight upright books; \<open>BookSpacer\<close> grows by a quarter per book.\<close>

function RenderScene_for :: "int \<Rightarrow> real \<Rightarrow> action" where
  "RenderScene_for i BookSpacer dflt s =
    (if i < 8 then
       andThen (LoadBook BookSpacer 0.25 (- 6.35) 0 0 0 dflt s)
         (RenderScene_for (i + 1) (BookSpacer + 0.25) dflt s)
     else Inr [])"
  by pat_completeness auto
termination
  by (relation "measure (\<lambda>(i, BookSpacer, dflt, s). nat (8 - i))") auto

declare RenderScene_for.simps [simp del]


section \<open>Reading states and events\<close>

text \<open>
  The registry entries in load order; a registry whose count stays within the array;
  a state in which every rendering method returns (the shader manager is only used
  unchecked when there are materials); a tag that some material carries.
\<close>

definition loaded :: "SceneManager \<Rightarrow> TEXTURE_INFO list" where
  "loaded s = take (nat (m_loadedTextures s)) (m_textureIDs s)"

definition well_formed :: "SceneManager \<Rightarrow> bool" where
  "well_formed s \<longleftrightarrow> m_loadedTextures s \<le> int (length (m_textureIDs s))"

definition can_render :: "SceneManager \<Rightarrow> bool" where
  "can_render s \<longleftrightarrow>
     well_formed s \<and> (m_pShaderManager s \<noteq> NULL \<or> m_objectMaterials s = [])"

definition registered :: "SceneManager \<Rightarrow> string \<Rightarrow> bool" where
  "registered s tg \<longleftrightarrow> (\<exists>e\<in>set (m_objectMaterials s). OBJECT_MATERIAL.tag e = tg)"

text \<open>The shader uniform an event assigns, and the name of a point-light uniform.\<close>

fun uniform_of :: "event \<Rightarrow> string option" where
  "uniform_of (setMat4Value name v) = Some name"
| "uniform_of (setIntValue name v) = Some name"
| "uniform_of (setBoolValue name v) = Some name"
| "uniform_of (setVec4Value name v) = Some name"
| "uniform_of (setVec3Value name v) = Some name"
| "uniform_of (setVec2Value name v) = Some name"
| "uniform_of (setFloatValue name v) = Some name"
| "uniform_of (setSampler2DValue name v) = Some name"
| "uniform_of e = None"

definition pointLight :: "nat \<Rightarrow> string \<Rightarrow> string" where
  "pointLight i field = ''pointLights['' @ [''0123456789'' ! i] @ ''].'' @ field"




text \<open>
  The material tags the scene uses. Two states hold the same registries when they agree
  on the shader manager, on the tags of the loaded textures in load order and on the
  materials; the texture IDs and the unused slots may differ. The initial contents of
  the local \<open>material\<close> do not matter when they are equal, when there are no
  materials, or when every tag the scene uses is registered. An action is \<open>steady\<close>
  when it issues the same events from any two such starting points.
\<close>

definition scene_materials :: "string list" where
  "scene_materials =
    [''woodFloor'', ''wall'', ''porcelain'', ''wood'', ''metal'', ''cloth'', ''plastic'',
     ''BookCover'']"

definition same_registry :: "SceneManager \<Rightarrow> SceneManager \<Rightarrow> bool" where
  "same_registry s1 s2 \<longleftrightarrow>
     well_formed s1 \<and> well_formed s2 \<and>
     m_pShaderManager s1 = m_pShaderManager s2 \<and>
     map tag (loaded s1) = map tag (loaded s2) \<and>
     m_objectMaterials s1 = m_objectMaterials s2"

definition materials_settled ::
  "OBJECT_MATERIAL \<Rightarrow> SceneManager \<Rightarrow> OBJECT_MATERIAL \<Rightarrow> bool" where
  "materials_settled dflt1 s1 dflt2 \<longleftrightarrow>
     dflt1 = dflt2 \<or> m_objectMaterials s1 = [] \<or> list_all (registered s1) scene_materials"

definition steady :: "action \<Rightarrow> bool" where
  "steady a \<longleftrightarrow>
     (\<forall>dflt1 s1 dflt2 s2.
        same_registry s1 s2 \<and> materials_settled dflt1 s1 dflt2 \<longrightarrow> a dflt1 s1 = a dflt2 s2)"

text \<open>
  Modelled from the spec: the primitive meshes are the seven shapes of the glossary (box,
  cylinder, tapered cylinder, torus, half-torus, sphere, plane), each generated once and
  reused. ShapeMeshes, which generates and draws them, is not among the sources.
\<close>

datatype shape = Box | Cylinder | TaperedCylinder | Torus | HalfTorus | Sphere | Plane


text \<open>
  Modelled from the spec: the shape a draw operation of ShapeMeshes draws is the shape it
  is named after (\<open>DrawBoxMeshSide\<close> draws one side of the box).
\<close>

fun drawn_shape :: "event \<Rightarrow> shape option" where
  "drawn_shape DrawPlaneMesh = Some Plane"
| "drawn_shape DrawBoxMesh = Some Box"
| "drawn_shape (DrawBoxMeshSide side) = Some Box"
| "drawn_shape DrawCylinderMesh = Some Cylinder"
| "drawn_shape (DrawTaperedCylinderMesh t b sides) = Some TaperedCylinder"
| "drawn_shape DrawTorusMesh = Some Torus"
| "drawn_shape DrawHalfTorusMesh = Some HalfTorus"
| "drawn_shape DrawSphereMesh = Some Sphere"
| "drawn_shape e = None"


definition draws_within :: "shape set \<Rightarrow> action \<Rightarrow> bool" where
  "draws_within S a \<longleftrightarrow>
     (\<forall>dflt s. can_render s \<longrightarrow>
        (\<exists>es. a dflt s = Inr es \<and> set (List.map_filter drawn_shape es) \<subseteq> S))"

section \<open>Example states\<close>

text \<open>
  A registry with room for four textures, three of them loaded (the tag \<open>cup\<close> twice),
  and three materials (the tag \<open>metal\<close> twice).
\<close>

definition example_scene :: SceneManager where
  "example_scene =
    \<lparr>m_pShaderManager = Object,
     m_textureIDs =
       [\<lparr>ID = 7, tag = ''cup''\<rparr>, \<lparr>ID = 9, tag = ''wall''\<rparr>,
        \<lparr>ID = 11, tag = ''cup''\<rparr>, \<lparr>ID = 0, tag = ''''\<rparr>],
     m_loadedTextures = 3,
     m_objectMaterials =
       [\<lparr>diffuseColor = vec3 0.9 0.9 0.9, specularColor = vec3 0.1 0.1 0.1,
         shininess = 1, tag = ''plastic''\<rparr>,
        \<lparr>diffuseColor = vec3 0.3 0.3 0.2, specularColor = vec3 0.7 0.7 0.8,
         shininess = 8, tag = ''metal''\<rparr>,
        \<lparr>diffuseColor = vec3 1 1 1, specularColor = vec3 0 0 0,
         shininess = 2, tag = ''metal''\<rparr>]\<rparr>"

definition example_material :: OBJECT_MATERIAL where
  "example_material =
    \<lparr>diffuseColor = vec3 0.5 0.5 0.5, specularColor = vec3 0.25 0.25 0.25,
     shininess = 3, tag = ''none''\<rparr>"

text \<open>
  An environment with a three-channel image and a one-channel (greyscale) image; the
  next texture name \<open>glGenTextures\<close> hands out is 20.
\<close>

definition example_world :: world where
  "example_world =
    \<lparr>stbi_load =
       map_of [(''./textures/Wood1.jpg'', \<lparr>width = 4, height = 2, colorChannels = 3\<rparr>),
               (''./textures/Grey.jpg'', \<lparr>width = 2, height = 2, colorChannels = 1\<rparr>)],
     gl_name = word_of_nat,
     gl_generated = 20\<rparr>"



section \<open>Looking up textures and materials\<close>

text \<open>The three \<open>while\<close> loops: leaving the loop, a hit at index \<open>k\<close>, no hit.\<close>

lemma FindTextureID_while_done: "FindTextureID_while s tg t i True = Inr t"
  by (subst FindTextureID_while.simps) simp

lemma FindTextureSlot_while_done: "FindTextureSlot_while s tg t i True = Inr t"
  by (subst FindTextureSlot_while.simps) simp

lemma FindMaterial_while_done: "FindMaterial_while s tg material i True = material"
  by (subst FindMaterial_while.simps) simp

lemma FindTextureID_while_hit:
  assumes wf: "m_loadedTextures s \<le> int (length (m_textureIDs s))"
    and k: "int k < m_loadedTextures s" "tag (m_textureIDs s ! k) = tg"
    and before: "\<forall>j<k. tag (m_textureIDs s ! j) \<noteq> tg"
  shows "i \<le> k \<Longrightarrow>
    FindTextureID_while s tg t (int i) False = Inr (sint (ID (m_textureIDs s ! k)))"
proof (induction "k - i" arbitrary: i t)
  case 0
  then have "i = k" by simp
  with wf k show ?case
    by (subst FindTextureID_while.simps) (simp add: FindTextureID_while_done)
next
  case (Suc d)
  then have lt: "i < k" and d: "d = k - Suc i" by simp_all
  from lt before have ne: "tag (m_textureIDs s ! i) \<noteq> tg" by simp
  from lt k wf have inb: "int i < m_loadedTextures s" "int i < int (length (m_textureIDs s))"
    by simp_all
  have "FindTextureID_while s tg t (int i) False = FindTextureID_while s tg t (int (Suc i)) False"
    using ne inb by (subst FindTextureID_while.simps) (simp add: add.commute)
  also have "\<dots> = Inr (sint (ID (m_textureIDs s ! k)))"
    using Suc.hyps(1)[OF d] lt by simp
  finally show ?case .
qed

lemma FindTextureID_while_miss:
  assumes wf: "m_loadedTextures s \<le> int (length (m_textureIDs s))"
    and none: "\<forall>k. int k < m_loadedTextures s \<longrightarrow> tag (m_textureIDs s ! k) \<noteq> tg"
  shows "FindTextureID_while s tg t (int i) False = Inr t"
proof (induction "nat (m_loadedTextures s) - i" arbitrary: i)
  case 0
  then have "\<not> int i < m_loadedTextures s" by simp
  then show ?case by (subst FindTextureID_while.simps) simp
next
  case (Suc d)
  then have inb: "int i < m_loadedTextures s" and d: "d = nat (m_loadedTextures s) - Suc i"
    by simp_all
  from inb none have ne: "tag (m_textureIDs s ! i) \<noteq> tg" by simp
  from inb wf have inb': "int i < int (length (m_textureIDs s))" by simp
  have "FindTextureID_while s tg t (int i) False = FindTextureID_while s tg t (int (Suc i)) False"
    using ne inb inb' by (subst FindTextureID_while.simps) (simp add: add.commute)
  also have "\<dots> = Inr t" using Suc.hyps(1)[OF d] .
  finally show ?case .
qed

lemma FindTextureSlot_while_hit:
  assumes wf: "m_loadedTextures s \<le> int (length (m_textureIDs s))"
    and k: "int k < m_loadedTextures s" "tag (m_textureIDs s ! k) = tg"
    and before: "\<forall>j<k. tag (m_textureIDs s ! j) \<noteq> tg"
  shows "i \<le> k \<Longrightarrow> FindTextureSlot_while s tg t (int i) False = Inr (int k)"
proof (induction "k - i" arbitrary: i t)
  case 0
  then have "i = k" by simp
  with wf k show ?case
    by (subst FindTextureSlot_while.simps) (simp add: FindTextureSlot_while_done)
next
  case (Suc d)
  then have lt: "i < k" and d: "d = k - Suc i" by simp_all
  from lt before have ne: "tag (m_textureIDs s ! i) \<noteq> tg" by simp
  from lt k wf have inb: "int i < m_loadedTextures s" "int i < int (length (m_textureIDs s))"
    by simp_all
  have "FindTextureSlot_while s tg t (int i) False
      = FindTextureSlot_while s tg t (int (Suc i)) False"
    using ne inb by (subst FindTextureSlot_while.simps) (simp add: add.commute)
  also have "\<dots> = Inr (int k)"
    using Suc.hyps(1)[OF d] lt by simp
  finally show ?case .
qed

lemma FindTextureSlot_while_miss:
  assumes wf: "m_loadedTextures s \<le> int (length (m_textureIDs s))"
    and none: "\<forall>k. int k < m_loadedTextures s \<longrightarrow> tag (m_textureIDs s ! k) \<noteq> tg"
  shows "FindTextureSlot_while s tg t (int i) False = Inr t"
proof (induction "nat (m_loadedTextures s) - i" arbitrary: i)
  case 0
  then have "\<not> int i < m_loadedTextures s" by simp
  then show ?case by (subst FindTextureSlot_while.simps) simp
next
  case (Suc d)
  then have inb: "int i < m_loadedTextures s" and d: "d = nat (m_loadedTextures s) - Suc i"
    by simp_all
  from inb none have ne: "tag (m_textureIDs s ! i) \<noteq> tg" by simp
  from inb wf have inb': "int i < int (length (m_textureIDs s))" by simp
  have "FindTextureSlot_while s tg t (int i) False
      = FindTextureSlot_while s tg t (int (Suc i)) False"
    using ne inb inb' by (subst FindTextureSlot_while.simps) (simp add: add.commute)
  also have "\<dots> = Inr t" using Suc.hyps(1)[OF d] .
  finally show ?case .
qed

lemma FindMaterial_while_hit:
  assumes k: "k < length (m_objectMaterials s)" "OBJECT_MATERIAL.tag (m_objectMaterials s ! k) = tg"
    and before: "\<forall>j<k. OBJECT_MATERIAL.tag (m_objectMaterials s ! j) \<noteq> tg"
  shows "i \<le> k \<Longrightarrow>
    FindMaterial_while s tg material (int i) False =
      material\<lparr>diffuseColor := diffuseColor (m_objectMaterials s ! k),
               specularColor := specularColor (m_objectMaterials s ! k),
               shininess := shininess (m_objectMaterials s ! k)\<rparr>"
proof (induction "k - i" arbitrary: i)
  case 0
  then have "i = k" by simp
  with k show ?case
    by (subst FindMaterial_while.simps) (simp add: FindMaterial_while_done)
next
  case (Suc d)
  then have lt: "i < k" and d: "d = k - Suc i" by simp_all
  from lt before have ne: "OBJECT_MATERIAL.tag (m_objectMaterials s ! i) \<noteq> tg" by simp
  from lt k have inb: "i < length (m_objectMaterials s)" by simp
  have "FindMaterial_while s tg material (int i) False
      = FindMaterial_while s tg material (int (Suc i)) False"
    using ne inb by (subst FindMaterial_while.simps) (simp add: add.commute)
  also have "\<dots> = material\<lparr>diffuseColor := diffuseColor (m_objectMaterials s ! k),
               specularColor := specularColor (m_objectMaterials s ! k),
               shininess := shininess (m_objectMaterials s ! k)\<rparr>"
    using Suc.hyps(1)[OF d] lt by simp
  finally show ?case .
qed

lemma FindMaterial_while_miss:
  assumes none: "\<forall>k<length (m_objectMaterials s). OBJECT_MATERIAL.tag (m_objectMaterials s ! k) \<noteq> tg"
  shows "FindMaterial_while s tg material (int i) False = material"
proof (induction "length (m_objectMaterials s) - i" arbitrary: i)
  case 0
  then have "\<not> i < length (m_objectMaterials s)" by simp
  then show ?case by (subst FindMaterial_while.simps) simp
next
  case (Suc d)
  then have inb: "i < length (m_objectMaterials s)" and d: "d = length (m_objectMaterials s) - Suc i"
    by simp_all
  from inb none have ne: "OBJECT_MATERIAL.tag (m_objectMaterials s ! i) \<noteq> tg" by simp
  have "FindMaterial_while s tg material (int i) False
      = FindMaterial_while s tg material (int (Suc i)) False"
    using ne inb by (subst FindMaterial_while.simps) (simp add: add.commute)
  also have "\<dots> = material" using Suc.hyps(1)[OF d] .
  finally show ?case .
qed

lemma first_match:
  assumes "\<exists>e\<in>set xs. P e"
  shows "\<exists>k<length xs. P (xs ! k) \<and> (\<forall>j<k. \<not> P (xs ! j))"
  using assms
proof (induction xs)
  case Nil
  then show ?case by simp
next
  case (Cons x xs)
  show ?case
  proof (cases "P x")
    case True
    then have "0 < length (x # xs) \<and> P ((x # xs) ! 0) \<and> (\<forall>j<0. \<not> P ((x # xs) ! j))"
      by simp
    then show ?thesis by blast
  next
    case False
    with Cons.prems have "\<exists>e\<in>set xs. P e" by simp
    from Cons.IH[OF this] obtain k where k: "k < length xs" "P (xs ! k)"
      "\<forall>j<k. \<not> P (xs ! j)" by blast
    have "\<forall>j<Suc k. \<not> P ((x # xs) ! j)"
    proof (intro allI impI)
      fix j assume "j < Suc k"
      then show "\<not> P ((x # xs) ! j)" using False k(3) by (cases j) simp_all
    qed
    with k have "Suc k < length (x # xs) \<and> P ((x # xs) ! Suc k) \<and>
        (\<forall>j<Suc k. \<not> P ((x # xs) ! j))" by simp
    then show ?thesis by blast
  qed
qed

text \<open>
  Claim C2. Texture lookup is a linear scan. In a registry whose count does not exceed
  the array, for every tag: if \<open>k\<close> is the first loaded slot (in load order) with that
  tag, \<open>FindTextureID\<close> returns the texture ID stored there (the \<open>GLuint\<close> as an
  \<open>int\<close>, the same 32 bits) and \<open>FindTextureSlot\<close> returns \<open>k\<close>; if no loaded
  slot has the tag, both return \<open>-1\<close>.
\<close>

theorem FindTexture_linear_scan:
  assumes "m_loadedTextures s \<le> int (length (m_textureIDs s))"
  shows "(\<forall>k. int k < m_loadedTextures s \<and> tag (m_textureIDs s ! k) = tg \<and>
              (\<forall>j<k. tag (m_textureIDs s ! j) \<noteq> tg) \<longrightarrow>
            FindTextureID s tg = Inr (sint (ID (m_textureIDs s ! k))) \<and>
            word_of_int (sint (ID (m_textureIDs s ! k))) = ID (m_textureIDs s ! k) \<and>
            FindTextureSlot s tg = Inr (int k)) \<and>
         ((\<forall>k. int k < m_loadedTextures s \<longrightarrow> tag (m_textureIDs s ! k) \<noteq> tg) \<longrightarrow>
            FindTextureID s tg = Inr (- 1) \<and> FindTextureSlot s tg = Inr (- 1))"
proof (intro conjI allI impI)
  fix k
  assume h: "int k < m_loadedTextures s \<and> tag (m_textureIDs s ! k) = tg \<and>
              (\<forall>j<k. tag (m_textureIDs s ! j) \<noteq> tg)"
  show "FindTextureID s tg = Inr (sint (ID (m_textureIDs s ! k)))"
    using FindTextureID_while_hit[OF assms, of k tg 0 "- 1"] h by (simp add: FindTextureID_def)
  show "FindTextureSlot s tg = Inr (int k)"
    using FindTextureSlot_while_hit[OF assms, of k tg 0 "- 1"] h by (simp add: FindTextureSlot_def)
  show "word_of_int (sint (ID (m_textureIDs s ! k))) = ID (m_textureIDs s ! k)" by simp
next
  assume h: "\<forall>k. int k < m_loadedTextures s \<longrightarrow> tag (m_textureIDs s ! k) \<noteq> tg"
  show "FindTextureID s tg = Inr (- 1)"
    using FindTextureID_while_miss[OF assms h, of "- 1" 0] by (simp add: FindTextureID_def)
  show "FindTextureSlot s tg = Inr (- 1)"
    using FindTextureSlot_while_miss[OF assms h, of "- 1" 0] by (simp add: FindTextureSlot_def)
qed

text \<open>
  The example registry holds \<open>cup\<close> in slots 0 and 2 and \<open>wall\<close> in slot 1: the
  first \<open>cup\<close> is found, and an unknown tag gives \<open>-1\<close>.
\<close>

theorem FindTexture_linear_scan_witness:
  "m_loadedTextures example_scene \<le> int (length (m_textureIDs example_scene)) \<and>
   FindTextureID example_scene ''cup'' = Inr 7 \<and>
   FindTextureSlot example_scene ''cup'' = Inr 0 \<and>
   FindTextureID example_scene ''wall'' = Inr 9 \<and>
   FindTextureSlot example_scene ''wall'' = Inr 1 \<and>
   FindTextureID example_scene ''lamp-rim'' = Inr (- 1) \<and>
   FindTextureSlot example_scene ''lamp-rim'' = Inr (- 1)"
proof -
  have wf: "m_loadedTextures example_scene \<le> int (length (m_textureIDs example_scene))"
    by (simp add: example_scene_def)
  note T = FindTexture_linear_scan[OF wf]
  have cup: "int 0 < m_loadedTextures example_scene \<and>
      tag (m_textureIDs example_scene ! 0) = ''cup'' \<and>
      (\<forall>j<0. tag (m_textureIDs example_scene ! j) \<noteq> ''cup'')"
    by (simp add: example_scene_def)
  have wall: "int 1 < m_loadedTextures example_scene \<and>
      tag (m_textureIDs example_scene ! 1) = ''wall'' \<and>
      (\<forall>j<1. tag (m_textureIDs example_scene ! j) \<noteq> ''wall'')"
    by (simp add: example_scene_def)
  have none: "\<forall>k. int k < m_loadedTextures example_scene \<longrightarrow>
      tag (m_textureIDs example_scene ! k) \<noteq> ''lamp-rim''"
    by (simp add: example_scene_def nth_Cons')
  from T[of "''cup''", THEN conjunct1, rule_format, OF cup]
    T[of "''wall''", THEN conjunct1, rule_format, OF wall]
    T[of "''lamp-rim''", THEN conjunct2, THEN mp, OF none] wf
  show ?thesis by (simp add: example_scene_def)
qed

text \<open>
  Claim C3. For every tag that some entry of the material registry has, there is a first
  such entry (in insertion order), and \<open>FindMaterial\<close> returns true with
  \<open>diffuseColor\<close>, \<open>specularColor\<close> and \<open>shininess\<close> of that entry copied
  into the out-parameter (whose tag stays as it was).
\<close>

theorem FindMaterial_copies_first_match:
  assumes "\<exists>e\<in>set (m_objectMaterials s). OBJECT_MATERIAL.tag e = tg"
  shows "(\<exists>k<length (m_objectMaterials s).
            OBJECT_MATERIAL.tag (m_objectMaterials s ! k) = tg \<and>
            (\<forall>j<k. OBJECT_MATERIAL.tag (m_objectMaterials s ! j) \<noteq> tg)) \<and>
         (\<forall>k. k < length (m_objectMaterials s) \<and>
              OBJECT_MATERIAL.tag (m_objectMaterials s ! k) = tg \<and>
              (\<forall>j<k. OBJECT_MATERIAL.tag (m_objectMaterials s ! j) \<noteq> tg) \<longrightarrow>
            FindMaterial s tg material =
              (True, material\<lparr>diffuseColor := diffuseColor (m_objectMaterials s ! k),
                              specularColor := specularColor (m_objectMaterials s ! k),
                              shininess := shininess (m_objectMaterials s ! k)\<rparr>))"
proof (intro conjI allI impI)
  show "\<exists>k<length (m_objectMaterials s).
            OBJECT_MATERIAL.tag (m_objectMaterials s ! k) = tg \<and>
            (\<forall>j<k. OBJECT_MATERIAL.tag (m_objectMaterials s ! j) \<noteq> tg)"
    using first_match[OF assms] by simp
next
  fix k
  assume k: "k < length (m_objectMaterials s) \<and>
              OBJECT_MATERIAL.tag (m_objectMaterials s ! k) = tg \<and>
              (\<forall>j<k. OBJECT_MATERIAL.tag (m_objectMaterials s ! j) \<noteq> tg)"
  then have ne: "length (m_objectMaterials s) \<noteq> 0" by auto
  from k have "FindMaterial_while s tg material (int 0) False =
      material\<lparr>diffuseColor := diffuseColor (m_objectMaterials s ! k),
               specularColor := specularColor (m_objectMaterials s ! k),
               shininess := shininess (m_objectMaterials s ! k)\<rparr>"
    by (intro FindMaterial_while_hit) simp_all
  with ne show "FindMaterial s tg material =
              (True, material\<lparr>diffuseColor := diffuseColor (m_objectMaterials s ! k),
                              specularColor := specularColor (m_objectMaterials s ! k),
                              shininess := shininess (m_objectMaterials s ! k)\<rparr>)"
    by (simp add: FindMaterial_def)
qed

text \<open>The example registry has two entries tagged \<open>metal\<close>; the first one is copied.\<close>

theorem FindMaterial_copies_first_match_witness:
  "FindMaterial example_scene ''metal'' example_material =
     (True, \<lparr>diffuseColor = vec3 0.3 0.3 0.2, specularColor = vec3 0.7 0.7 0.8,
             shininess = 8, tag = ''none''\<rparr>)"
proof -
  have ex: "\<exists>e\<in>set (m_objectMaterials example_scene). OBJECT_MATERIAL.tag e = ''metal''"
    by (simp add: example_scene_def)
  have first: "1 < length (m_objectMaterials example_scene) \<and>
      OBJECT_MATERIAL.tag (m_objectMaterials example_scene ! 1) = ''metal'' \<and>
      (\<forall>j<1. OBJECT_MATERIAL.tag (m_objectMaterials example_scene ! j) \<noteq> ''metal'')"
    by (simp add: example_scene_def)
  from FindMaterial_copies_first_match[OF ex, of example_material,
      THEN conjunct2, rule_format, OF first]
  show ?thesis by (simp add: example_scene_def example_material_def)
qed

lemma FindMaterial_absent:
  assumes "m_objectMaterials s \<noteq> []"
    and "\<forall>e\<in>set (m_objectMaterials s). OBJECT_MATERIAL.tag e \<noteq> tg"
  shows "FindMaterial s tg material = (True, material)"
proof -
  from assms(2) have "\<forall>k<length (m_objectMaterials s).
      OBJECT_MATERIAL.tag (m_objectMaterials s ! k) \<noteq> tg" by simp
  from FindMaterial_while_miss[OF this, of material 0] assms(1) show ?thesis
    by (simp add: FindMaterial_def)
qed

text \<open>
  Claim C4. \<open>FindMaterial\<close> returns false exactly when the material registry is
  empty. When the registry is not empty and no entry has the tag, it still returns true
  and leaves the out-parameter unchanged, so that \<open>SetShaderMaterial\<close> sends the
  values its local variable started with to the shader.
\<close>

theorem FindMaterial_true_unless_empty:
  "(fst (FindMaterial s tg material) = False \<longleftrightarrow> m_objectMaterials s = []) \<and>
   (m_objectMaterials s = [] \<longrightarrow> FindMaterial s tg material = (False, material)) \<and>
   (m_objectMaterials s \<noteq> [] \<and>
    (\<forall>e\<in>set (m_objectMaterials s). OBJECT_MATERIAL.tag e \<noteq> tg) \<longrightarrow>
      FindMaterial s tg material = (True, material) \<and>
      (m_pShaderManager s \<noteq> NULL \<longrightarrow>
        SetShaderMaterial tg dflt s =
          Inr [setVec3Value ''material.diffuseColor'' (diffuseColor dflt),
               setVec3Value ''material.specularColor'' (specularColor dflt),
               setFloatValue ''material.shininess'' (shininess dflt)]))"
proof (intro conjI impI)
  show "fst (FindMaterial s tg material) = False \<longleftrightarrow> m_objectMaterials s = []"
    by (simp add: FindMaterial_def)
  show "FindMaterial s tg material = (False, material)" if "m_objectMaterials s = []"
    using that by (simp add: FindMaterial_def)
next
  assume h: "m_objectMaterials s \<noteq> [] \<and>
    (\<forall>e\<in>set (m_objectMaterials s). OBJECT_MATERIAL.tag e \<noteq> tg)"
  then show "FindMaterial s tg material = (True, material)"
    using FindMaterial_absent by blast
  assume "m_pShaderManager s \<noteq> NULL"
  moreover from h have "FindMaterial s tg dflt = (True, dflt)"
    using FindMaterial_absent by blast
  ultimately show "SetShaderMaterial tg dflt s =
          Inr [setVec3Value ''material.diffuseColor'' (diffuseColor dflt),
               setVec3Value ''material.specularColor'' (specularColor dflt),
               setFloatValue ''material.shininess'' (shininess dflt)]"
    using h by (simp add: SetShaderMaterial_def)
qed

text \<open>
  The example registry has no material tagged \<open>wood\<close>: the lookup returns true and the
  shader receives the untouched local values; with the registry emptied it returns false.
\<close>

theorem FindMaterial_true_unless_empty_witness:
  "m_objectMaterials example_scene \<noteq> [] \<and>
   FindMaterial example_scene ''wood'' example_material = (True, example_material) \<and>
   m_pShaderManager example_scene \<noteq> NULL \<and>
   SetShaderMaterial ''wood'' example_material example_scene =
     Inr [setVec3Value ''material.diffuseColor'' (vec3 0.5 0.5 0.5),
          setVec3Value ''material.specularColor'' (vec3 0.25 0.25 0.25),
          setFloatValue ''material.shininess'' 3] \<and>
   FindMaterial (example_scene\<lparr>m_objectMaterials := []\<rparr>) ''wood'' example_material =
     (False, example_material)"
proof -
  have ne: "m_objectMaterials example_scene \<noteq> []"
    and absent: "\<forall>e\<in>set (m_objectMaterials example_scene). OBJECT_MATERIAL.tag e \<noteq> ''wood''"
    and sm: "m_pShaderManager example_scene \<noteq> NULL"
    by (simp_all add: example_scene_def)
  have empty: "m_objectMaterials (example_scene\<lparr>m_objectMaterials := []\<rparr>) = []" by simp
  note T = FindMaterial_true_unless_empty
    [of example_scene "''wood''" example_material example_material]
  note E = FindMaterial_true_unless_empty
    [of "example_scene\<lparr>m_objectMaterials := []\<rparr>" "''wood''" example_material example_material]
  from T ne absent sm E empty show ?thesis by (simp add: example_material_def)
qed

section \<open>Creating a texture\<close>




lemma TEXTURE_INFO_overwrite:
  "(e :: TEXTURE_INFO)\<lparr>ID := a, tag := b\<rparr> = \<lparr>ID = a, tag = b\<rparr>"
  by (cases e) simp

text \<open>
  Claim C9. \<open>CreateGLTexture\<close> changes the registry all or nothing. When it returns
  false the object is unchanged. When it returns true, the slot at index
  \<open>m_loadedTextures\<close> now holds the generated texture name with the tag, every other
  slot is as before, and the count has grown by one. With a readable 3- or 4-channel
  image and a free slot it does return true; with the registry full there is no check
  that returns false: the write falls outside the array.
\<close>

theorem CreateGLTexture_registry_update:
  "(\<forall>es w' s'. CreateGLTexture filename tg w s = Inr (False, es, w', s') \<longrightarrow> s' = s) \<and>
   (\<forall>es w' s'. CreateGLTexture filename tg w s = Inr (True, es, w', s') \<longrightarrow>
      0 \<le> m_loadedTextures s \<and> nat (m_loadedTextures s) < length (m_textureIDs s) \<and>
      m_textureIDs s' =
        (m_textureIDs s)[nat (m_loadedTextures s) :=
           \<lparr>ID = gl_name w (gl_generated w), tag = tg\<rparr>] \<and>
      m_loadedTextures s' = m_loadedTextures s + 1 \<and>
      m_objectMaterials s' = m_objectMaterials s \<and>
      m_pShaderManager s' = m_pShaderManager s) \<and>
   (\<forall>img. stbi_load w filename = Some img \<and>
      (colorChannels img = 3 \<or> colorChannels img = 4) \<and>
      0 \<le> m_loadedTextures s \<and> m_loadedTextures s < int (length (m_textureIDs s)) \<and>
      m_loadedTextures s \<noteq> INT_MAX \<longrightarrow>
      (\<exists>es w' s'. CreateGLTexture filename tg w s = Inr (True, es, w', s'))) \<and>
   (\<forall>img. stbi_load w filename = Some img \<and>
      (colorChannels img = 3 \<or> colorChannels img = 4) \<and>
      int (length (m_textureIDs s)) \<le> m_loadedTextures s \<longrightarrow>
      CreateGLTexture filename tg w s = Inl OutOfBounds)"
  by (cases "stbi_load w filename")
     (auto simp: CreateGLTexture_def Let_def TEXTURE_INFO_overwrite split: if_splits)

text \<open>
  In the example: the greyscale image leaves the object as it was; the three-channel
  image fills the fourth slot with texture name 20; with all four slots in use the same
  call writes out of bounds.
\<close>

theorem CreateGLTexture_registry_update_witness:
  "map_sum id (snd \<circ> snd \<circ> snd)
     (CreateGLTexture ''./textures/Grey.jpg'' ''cup'' example_world example_scene)
     = Inr example_scene \<and>
   map_sum id (snd \<circ> snd \<circ> snd)
     (CreateGLTexture ''./textures/Wood1.jpg'' ''table-top'' example_world example_scene)
     = Inr (example_scene
         \<lparr>m_textureIDs :=
            [\<lparr>ID = 7, tag = ''cup''\<rparr>, \<lparr>ID = 9, tag = ''wall''\<rparr>,
             \<lparr>ID = 11, tag = ''cup''\<rparr>, \<lparr>ID = 20, tag = ''table-top''\<rparr>],
          m_loadedTextures := 4\<rparr>) \<and>
   CreateGLTexture ''./textures/Wood1.jpg'' ''table-top'' example_world
     (example_scene\<lparr>m_loadedTextures := 4\<rparr>) = Inl OutOfBounds"
proof -
  note T = CreateGLTexture_registry_update
  have load: "stbi_load example_world ''./textures/Wood1.jpg''
      = Some \<lparr>width = 4, height = 2, colorChannels = 3\<rparr>"
    by (simp add: example_world_def)
  have grey: "CreateGLTexture ''./textures/Grey.jpg'' ''cup'' example_world example_scene
      = Inr (False, fst (snd (projr (CreateGLTexture ''./textures/Grey.jpg'' ''cup'' example_world example_scene))),
             fst (snd (snd (projr (CreateGLTexture ''./textures/Grey.jpg'' ''cup'' example_world example_scene)))),
             snd (snd (snd (projr (CreateGLTexture ''./textures/Grey.jpg'' ''cup'' example_world example_scene)))))"
    by (simp add: CreateGLTexture_def example_world_def Let_def)
  have unchanged: "snd (snd (snd (projr
      (CreateGLTexture ''./textures/Grey.jpg'' ''cup'' example_world example_scene))))
      = example_scene"
    using T[of "''./textures/Grey.jpg''" "''cup''" example_world example_scene,
        THEN conjunct1, rule_format, OF grey] .
  have 1: "map_sum id (snd \<circ> snd \<circ> snd)
     (CreateGLTexture ''./textures/Grey.jpg'' ''cup'' example_world example_scene)
     = Inr example_scene"
    by (subst grey) (simp add: unchanged)
  have room: "stbi_load example_world ''./textures/Wood1.jpg''
        = Some \<lparr>width = 4, height = 2, colorChannels = 3\<rparr> \<and>
      (colorChannels \<lparr>width = 4, height = 2, colorChannels = 3\<rparr> = 3 \<or>
       colorChannels \<lparr>width = 4, height = 2, colorChannels = 3\<rparr> = 4) \<and>
      0 \<le> m_loadedTextures example_scene \<and>
      m_loadedTextures example_scene < int (length (m_textureIDs example_scene)) \<and>
      m_loadedTextures example_scene \<noteq> INT_MAX"
    using load by (simp add: example_scene_def INT_MAX_def)
  from T[of "''./textures/Wood1.jpg''" "''table-top''" example_world example_scene,
        THEN conjunct2, THEN conjunct2, THEN conjunct1, rule_format, OF room]
  obtain es w' s' where ok: "CreateGLTexture ''./textures/Wood1.jpg'' ''table-top''
      example_world example_scene = Inr (True, es, w', s')" by blast
  from T[of "''./textures/Wood1.jpg''" "''table-top''" example_world example_scene,
        THEN conjunct2, THEN conjunct1, rule_format, OF ok]
  have "s' = example_scene
         \<lparr>m_textureIDs :=
            [\<lparr>ID = 7, tag = ''cup''\<rparr>, \<lparr>ID = 9, tag = ''wall''\<rparr>,
             \<lparr>ID = 11, tag = ''cup''\<rparr>, \<lparr>ID = 20, tag = ''table-top''\<rparr>],
          m_loadedTextures := 4\<rparr>"
    by (simp add: example_scene_def example_world_def)
  with ok have 2: "map_sum id (snd \<circ> snd \<circ> snd)
     (CreateGLTexture ''./textures/Wood1.jpg'' ''table-top'' example_world example_scene)
     = Inr (example_scene
         \<lparr>m_textureIDs :=
            [\<lparr>ID = 7, tag = ''cup''\<rparr>, \<lparr>ID = 9, tag = ''wall''\<rparr>,
             \<lparr>ID = 11, tag = ''cup''\<rparr>, \<lparr>ID = 20, tag = ''table-top''\<rparr>],
          m_loadedTextures := 4\<rparr>)" by simp
  have full: "stbi_load example_world ''./textures/Wood1.jpg''
        = Some \<lparr>width = 4, height = 2, colorChannels = 3\<rparr> \<and>
      (colorChannels \<lparr>width = 4, height = 2, colorChannels = 3\<rparr> = 3 \<or>
       colorChannels \<lparr>width = 4, height = 2, colorChannels = 3\<rparr> = 4) \<and>
      int (length (m_textureIDs (example_scene\<lparr>m_loadedTextures := 4\<rparr>)))
        \<le> m_loadedTextures (example_scene\<lparr>m_loadedTextures := 4\<rparr>)"
    using load by (simp add: example_scene_def)
  note 3 = T[of "''./textures/Wood1.jpg''" "''table-top''" example_world
        "example_scene\<lparr>m_loadedTextures := 4\<rparr>",
        THEN conjunct2, THEN conjunct2, THEN conjunct2, rule_format, OF full]
  from 1 2 3 show ?thesis by blast
qed

section \<open>Destroying the textures\<close>

text \<open>The loop of \<open>DestroyGLTextures\<close>, from index \<open>i\<close> on.\<close>

lemma DestroyGLTextures_for_stop:
  "\<not> i < m_loadedTextures s \<Longrightarrow> DestroyGLTextures_for i es w s = Inr (es, w, s)"
  by (subst DestroyGLTextures_for.simps) simp

lemma DestroyGLTextures_for_step:
  assumes "int i < m_loadedTextures s" "i < length (m_textureIDs s)"
  shows "DestroyGLTextures_for (int i) es w s =
    DestroyGLTextures_for (int (Suc i)) (es @ [glGenTextures 1])
      (w\<lparr>gl_generated := gl_generated w + 1\<rparr>)
      (s\<lparr>m_textureIDs :=
           (m_textureIDs s)[i := (m_textureIDs s ! i)\<lparr>ID := gl_name w (gl_generated w)\<rparr>]\<rparr>)"
  using assms by (subst DestroyGLTextures_for.simps) (simp add: add.commute)

lemma DestroyGLTextures_for_result:
  assumes "m_loadedTextures s \<le> int (length (m_textureIDs s))"
  shows "\<exists>s'. DestroyGLTextures_for (int i) es w s =
           Inr (es @ replicate (nat (m_loadedTextures s) - i) (glGenTextures 1),
                w\<lparr>gl_generated := gl_generated w + (nat (m_loadedTextures s) - i)\<rparr>, s') \<and>
         m_loadedTextures s' = m_loadedTextures s \<and>
         m_objectMaterials s' = m_objectMaterials s \<and>
         m_pShaderManager s' = m_pShaderManager s \<and>
         length (m_textureIDs s') = length (m_textureIDs s) \<and>
         map tag (m_textureIDs s') = map tag (m_textureIDs s) \<and>
         (\<forall>j<length (m_textureIDs s).
            ID (m_textureIDs s' ! j) =
              (if i \<le> j \<and> int j < m_loadedTextures s
               then gl_name w (gl_generated w + (j - i)) else ID (m_textureIDs s ! j)))"
  using assms
proof (induction "nat (m_loadedTextures s) - i" arbitrary: i es w s)
  case 0
  then have stop: "\<not> int i < m_loadedTextures s" by simp
  then have "nat (m_loadedTextures s) - i = 0" by simp
  with stop DestroyGLTextures_for_stop[OF stop, of es w] show ?case
    by (intro exI[of _ s]) auto
next
  case (Suc d)
  let ?arr = "m_textureIDs s"
  let ?s1 = "s\<lparr>m_textureIDs := ?arr[i := (?arr ! i)\<lparr>ID := gl_name w (gl_generated w)\<rparr>]\<rparr>"
  let ?w1 = "w\<lparr>gl_generated := gl_generated w + 1\<rparr>"
  from Suc.hyps(2) have lt: "int i < m_loadedTextures s" by simp
  with Suc.prems have inb: "i < length ?arr" by simp
  have d: "d = nat (m_loadedTextures ?s1) - Suc i" using Suc.hyps(2) by simp
  have wf1: "m_loadedTextures ?s1 \<le> int (length (m_textureIDs ?s1))" using Suc.prems by simp
  from Suc.hyps(1)[OF d wf1, of "es @ [glGenTextures 1]" ?w1]
  obtain s' where r: "DestroyGLTextures_for (int (Suc i)) (es @ [glGenTextures 1]) ?w1 ?s1 =
           Inr ((es @ [glGenTextures 1]) @
                  replicate (nat (m_loadedTextures ?s1) - Suc i) (glGenTextures 1),
                ?w1\<lparr>gl_generated := gl_generated ?w1 + (nat (m_loadedTextures ?s1) - Suc i)\<rparr>, s')"
    and keep: "m_loadedTextures s' = m_loadedTextures ?s1"
      "m_objectMaterials s' = m_objectMaterials ?s1"
      "m_pShaderManager s' = m_pShaderManager ?s1"
      "length (m_textureIDs s') = length (m_textureIDs ?s1)"
      "map tag (m_textureIDs s') = map tag (m_textureIDs ?s1)"
    and ids: "\<forall>j<length (m_textureIDs ?s1).
            ID (m_textureIDs s' ! j) =
              (if Suc i \<le> j \<and> int j < m_loadedTextures ?s1
               then gl_name ?w1 (gl_generated ?w1 + (j - Suc i)) else ID (m_textureIDs ?s1 ! j))"
    by blast
  have n: "nat (m_loadedTextures s) - i = Suc (nat (m_loadedTextures s) - Suc i)"
    using lt by simp
  have run: "DestroyGLTextures_for (int i) es w s =
           Inr (es @ replicate (nat (m_loadedTextures s) - i) (glGenTextures 1),
                w\<lparr>gl_generated := gl_generated w + (nat (m_loadedTextures s) - i)\<rparr>, s')"
    using DestroyGLTextures_for_step[OF lt inb, of es w] r n
    by (simp add: replicate_append_same)
  have tags: "map tag (m_textureIDs s') = map tag ?arr"
    using keep(5) inb by (simp add: map_update list_update_same_conv)
  have ids': "\<forall>j<length ?arr.
            ID (m_textureIDs s' ! j) =
              (if i \<le> j \<and> int j < m_loadedTextures s
               then gl_name w (gl_generated w + (j - i)) else ID (?arr ! j))"
  proof (intro allI impI)
    fix j assume j: "j < length ?arr"
    consider "j < i" | "j = i" | "i < j" by linarith
    then show "ID (m_textureIDs s' ! j) =
              (if i \<le> j \<and> int j < m_loadedTextures s
               then gl_name w (gl_generated w + (j - i)) else ID (?arr ! j))"
    proof cases
      case 1
      with ids j show ?thesis by simp
    next
      case 2
      with ids j lt show ?thesis by simp
    next
      case 3
      then have "gl_generated w + 1 + (j - Suc i) = gl_generated w + (j - i)" by simp
      with ids j 3 show ?thesis by simp
    qed
  qed
  from run keep tags ids' show ?case by (intro exI[of _ s']) simp
qed

lemma loaded_IDs:
  assumes wf: "m_loadedTextures s \<le> int (length (m_textureIDs s))"
    and len: "length (m_textureIDs s') = length (m_textureIDs s)"
    and cnt: "m_loadedTextures s' = m_loadedTextures s"
    and ids: "\<forall>j. int j < m_loadedTextures s \<longrightarrow> ID (m_textureIDs s' ! j) = f j"
  shows "map ID (loaded s') = map f [0..<nat (m_loadedTextures s)]"
proof (rule nth_equalityI)
  show "length (map ID (loaded s')) = length (map f [0..<nat (m_loadedTextures s)])"
    using wf len cnt by (simp add: loaded_def)
next
  fix j assume "j < length (map ID (loaded s'))"
  then have j: "j < nat (m_loadedTextures s)" "j < length (m_textureIDs s')"
    using cnt by (simp_all add: loaded_def)
  then have "int j < m_loadedTextures s" by simp
  with ids j cnt show "map ID (loaded s') ! j = map f [0..<nat (m_loadedTextures s)] ! j"
    by (simp add: loaded_def)
qed

text \<open>
  Claim C10. \<open>DestroyGLTextures\<close> removes no registry entry and deletes no texture.
  In a registry whose count stays within the array it returns; the only calls it issues
  are \<open>glGenTextures\<close> calls, one per loaded texture; the count, the array length and
  every stored tag are unchanged; the ID of the loaded slot \<open>j\<close> is overwritten with
  the \<open>j\<close>-th newly generated texture name; the unused slots, the materials and the
  shader manager are untouched.
\<close>

theorem DestroyGLTextures_regenerates:
  assumes "m_loadedTextures s \<le> int (length (m_textureIDs s))"
  shows "\<exists>s'. DestroyGLTextures w s =
           Inr (replicate (nat (m_loadedTextures s)) (glGenTextures 1),
                w\<lparr>gl_generated := gl_generated w + nat (m_loadedTextures s)\<rparr>, s') \<and>
         m_loadedTextures s' = m_loadedTextures s \<and>
         length (m_textureIDs s') = length (m_textureIDs s) \<and>
         map tag (m_textureIDs s') = map tag (m_textureIDs s) \<and>
         map ID (loaded s') =
           map (\<lambda>j. gl_name w (gl_generated w + j)) [0..<nat (m_loadedTextures s)] \<and>
         drop (nat (m_loadedTextures s)) (m_textureIDs s') =
           drop (nat (m_loadedTextures s)) (m_textureIDs s) \<and>
         m_objectMaterials s' = m_objectMaterials s \<and>
         m_pShaderManager s' = m_pShaderManager s"
proof -
  from DestroyGLTextures_for_result[OF assms, of 0 "[]" w]
  obtain s' where r: "DestroyGLTextures w s =
           Inr (replicate (nat (m_loadedTextures s)) (glGenTextures 1),
                w\<lparr>gl_generated := gl_generated w + nat (m_loadedTextures s)\<rparr>, s')"
    and keep: "m_loadedTextures s' = m_loadedTextures s"
      "m_objectMaterials s' = m_objectMaterials s"
      "m_pShaderManager s' = m_pShaderManager s"
      "length (m_textureIDs s') = length (m_textureIDs s)"
      "map tag (m_textureIDs s') = map tag (m_textureIDs s)"
    and ids: "\<forall>j<length (m_textureIDs s).
            ID (m_textureIDs s' ! j) =
              (if int j < m_loadedTextures s
               then gl_name w (gl_generated w + j) else ID (m_textureIDs s ! j))"
    by (auto simp: DestroyGLTextures_def)
  have ids1: "\<forall>j. int j < m_loadedTextures s \<longrightarrow>
      ID (m_textureIDs s' ! j) = gl_name w (gl_generated w + j)"
    using ids assms by auto
  have new: "map ID (loaded s') =
      map (\<lambda>j. gl_name w (gl_generated w + j)) [0..<nat (m_loadedTextures s)]"
    by (rule loaded_IDs[OF assms keep(4) keep(1) ids1])
  have rest: "drop (nat (m_loadedTextures s)) (m_textureIDs s') =
      drop (nat (m_loadedTextures s)) (m_textureIDs s)"
  proof (rule nth_equalityI)
    show "length (drop (nat (m_loadedTextures s)) (m_textureIDs s')) =
        length (drop (nat (m_loadedTextures s)) (m_textureIDs s))"
      using keep(4) by simp
  next
    fix j assume "j < length (drop (nat (m_loadedTextures s)) (m_textureIDs s'))"
    then have j: "nat (m_loadedTextures s) + j < length (m_textureIDs s)"
      using keep(4) by simp
    then have "\<not> int (nat (m_loadedTextures s) + j) < m_loadedTextures s" by simp
    with ids j have "ID (m_textureIDs s' ! (nat (m_loadedTextures s) + j)) =
        ID (m_textureIDs s ! (nat (m_loadedTextures s) + j))" by simp
    moreover have "tag (m_textureIDs s' ! (nat (m_loadedTextures s) + j)) =
        tag (m_textureIDs s ! (nat (m_loadedTextures s) + j))"
      using keep(4,5) j by (metis nth_map)
    ultimately have "m_textureIDs s' ! (nat (m_loadedTextures s) + j) =
        m_textureIDs s ! (nat (m_loadedTextures s) + j)" by simp
    then show "drop (nat (m_loadedTextures s)) (m_textureIDs s') ! j =
        drop (nat (m_loadedTextures s)) (m_textureIDs s) ! j"
      using j keep(4) by simp
  qed
  from r keep new rest show ?thesis by (intro exI[of _ s']) simp
qed

text \<open>
  In the example the three loaded textures get the names 20, 21 and 22, and keep their
  tags.
\<close>

theorem DestroyGLTextures_regenerates_witness:
  "m_loadedTextures example_scene \<le> int (length (m_textureIDs example_scene)) \<and>
   map_sum id fst (DestroyGLTextures example_world example_scene)
     = Inr [glGenTextures 1, glGenTextures 1, glGenTextures 1] \<and>
   map_sum id (m_loadedTextures \<circ> snd \<circ> snd) (DestroyGLTextures example_world example_scene)
     = Inr 3 \<and>
   map_sum id (map tag \<circ> m_textureIDs \<circ> snd \<circ> snd)
       (DestroyGLTextures example_world example_scene)
     = Inr [''cup'', ''wall'', ''cup'', ''''] \<and>
   map_sum id (map ID \<circ> loaded \<circ> snd \<circ> snd)
       (DestroyGLTextures example_world example_scene)
     = Inr [20, 21, 22]"
proof -
  have wf: "m_loadedTextures example_scene \<le> int (length (m_textureIDs example_scene))"
    by (simp add: example_scene_def)
  have three: "nat (m_loadedTextures example_scene) = 3" "[0..<3] = [0, 1, 2]"
    by (simp_all add: example_scene_def upt_rec)
  from DestroyGLTextures_regenerates[OF wf, of example_world] wf three
  show ?thesis
    by (auto simp: example_scene_def example_world_def numeral_3_eq_3)
qed

section \<open>The lights\<close>

text \<open>
  Claim C5. With a shader manager, \<open>SetupSceneLights\<close> returns the same events
  whatever the state: it switches lighting on, then assigns position, ambient, diffuse,
  specular and the active flag of \<open>pointLights[0]\<close>, \<open>pointLights[1]\<close> and
  \<open>pointLights[2]\<close>, each uniform once, each slot marked active, and no uniform of
  \<open>pointLights[3]\<close>.
\<close>

theorem SetupSceneLights_three_slots:
  assumes "m_pShaderManager s \<noteq> NULL"
  shows "\<exists>es. SetupSceneLights s = Inr es \<and>
     (\<forall>s'. m_pShaderManager s' \<noteq> NULL \<longrightarrow> SetupSceneLights s' = Inr es) \<and>
     map uniform_of es =
       map Some (g_UseLightingName #
         concat (map (\<lambda>i. map (pointLight i)
                   [''position'', ''ambient'', ''diffuse'', ''specular'', ''bActive''])
                 [0, 1, 2])) \<and>
     distinct (map uniform_of es) \<and>
     setBoolValue g_UseLightingName True \<in> set es \<and>
     (\<forall>i<3. setBoolValue (pointLight i ''bActive'') True \<in> set es) \<and>
     (\<forall>e\<in>set es. \<forall>field. uniform_of e \<noteq> Some (pointLight 3 field))"
proof -
  let ?es = "projr (SetupSceneLights s)"
  have r: "SetupSceneLights s = Inr ?es" using assms by (simp add: SetupSceneLights_def)
  have const: "\<forall>s'. m_pShaderManager s' \<noteq> NULL \<longrightarrow> SetupSceneLights s' = Inr ?es"
    using assms by (simp add: SetupSceneLights_def)
  have names: "map uniform_of ?es =
       map Some (g_UseLightingName #
         concat (map (\<lambda>i. map (pointLight i)
                   [''position'', ''ambient'', ''diffuse'', ''specular'', ''bActive''])
                 [0, 1, 2]))"
    using assms by (simp add: SetupSceneLights_def pointLight_def)
  have dist: "distinct (map uniform_of ?es)"
    using assms by (simp add: SetupSceneLights_def g_UseLightingName_def)
  have on: "setBoolValue g_UseLightingName True \<in> set ?es"
    using assms by (simp add: SetupSceneLights_def)
  have active: "\<forall>i<3. setBoolValue (pointLight i ''bActive'') True \<in> set ?es"
  proof (intro allI impI)
    fix i :: nat assume "i < 3"
    then consider "i = 0" | "i = 1" | "i = 2" by linarith
    then show "setBoolValue (pointLight i ''bActive'') True \<in> set ?es"
      using assms by cases (simp_all add: SetupSceneLights_def pointLight_def)
  qed
  have no4: "\<forall>e\<in>set ?es. \<forall>field. uniform_of e \<noteq> Some (pointLight 3 field)"
    using assms by (simp add: SetupSceneLights_def pointLight_def g_UseLightingName_def)
  from r const names dist on active no4 show ?thesis by blast
qed

text \<open>In the example state: sixteen assignments, the first two as stated.\<close>

theorem SetupSceneLights_three_slots_witness:
  "m_pShaderManager example_scene \<noteq> NULL \<and>
   map_sum id length (SetupSceneLights example_scene) = Inr 16 \<and>
   map_sum id (map uniform_of \<circ> take 2) (SetupSceneLights example_scene)
     = Inr [Some ''bUseLighting'', Some ''pointLights[0].position'']"
proof -
  have sm: "m_pShaderManager example_scene \<noteq> NULL" by (simp add: example_scene_def)
  from SetupSceneLights_three_slots[OF sm] obtain es where
    r: "SetupSceneLights example_scene = Inr es"
    and names: "map uniform_of es =
       map Some (g_UseLightingName #
         concat (map (\<lambda>i. map (pointLight i)
                   [''position'', ''ambient'', ''diffuse'', ''specular'', ''bActive''])
                 [0, 1, 2]))" by blast
  from names have "length (map uniform_of es) = 16" by simp
  then have len: "length es = 16" by simp
  from names have "take 2 (map uniform_of es) =
      [Some ''bUseLighting'', Some ''pointLights[0].position'']"
    by (simp add: pointLight_def g_UseLightingName_def)
  then have "map uniform_of (take 2 es) =
      [Some ''bUseLighting'', Some ''pointLights[0].position'']" by (simp add: take_map)
  with r len sm show ?thesis by simp
qed

section \<open>What the rendering depends on\<close>

text \<open>
  The slot \<open>FindTextureSlot\<close> returns is a function of the tags of the loaded
  textures; a registered material reaches the shader whatever the local variable held
  before. Every setter, every placement routine and \<open>RenderScene\<close> itself are
  steady.
\<close>

lemma first_match_takeWhile:
  assumes "x \<in> set xs"
  shows "length (takeWhile (\<lambda>t. t \<noteq> x) xs) < length xs"
    and "xs ! length (takeWhile (\<lambda>t. t \<noteq> x) xs) = x"
    and "\<forall>j<length (takeWhile (\<lambda>t. t \<noteq> x) xs). xs ! j \<noteq> x"
proof -
  let ?k = "length (takeWhile (\<lambda>t. t \<noteq> x) xs)"
  show lt: "?k < length xs"
  proof (rule ccontr)
    assume "\<not> ?k < length xs"
    then have "?k = length xs" using length_takeWhile_le[of "\<lambda>t. t \<noteq> x" xs] by simp
    then have eq: "takeWhile (\<lambda>t. t \<noteq> x) xs = xs"
      by (metis takeWhile_eq_take take_all order_refl)
    have "\<forall>t\<in>set xs. t \<noteq> x"
    proof
      fix t assume "t \<in> set xs"
      then have "t \<in> set (takeWhile (\<lambda>t. t \<noteq> x) xs)" by (simp only: eq)
      then show "t \<noteq> x" by (rule set_takeWhileD[THEN conjunct2])
    qed
    with assms show False by blast
  qed
  from nth_length_takeWhile[OF lt] show "xs ! ?k = x" by simp
  show "\<forall>j<?k. xs ! j \<noteq> x"
  proof (intro allI impI)
    fix j assume j: "j < ?k"
    then have "takeWhile (\<lambda>t. t \<noteq> x) xs ! j = xs ! j" by (rule takeWhile_nth)
    moreover from j have "takeWhile (\<lambda>t. t \<noteq> x) xs ! j \<in> set (takeWhile (\<lambda>t. t \<noteq> x) xs)"
      by (rule nth_mem)
    ultimately show "xs ! j \<noteq> x" using set_takeWhileD by fastforce
  qed
qed

lemma loaded_nth:
  assumes "well_formed s" "int k < m_loadedTextures s"
  shows "map tag (loaded s) ! k = tag (m_textureIDs s ! k)"
    and "k < length (map tag (loaded s))"
  using assms by (simp_all add: loaded_def well_formed_def)

lemma length_loaded:
  "well_formed s \<Longrightarrow> length (map tag (loaded s)) = nat (m_loadedTextures s)"
  by (simp add: loaded_def well_formed_def)

lemma FindTextureSlot_loaded:
  assumes wf: "well_formed s"
  shows "FindTextureSlot s tg =
    Inr (if tg \<in> set (map tag (loaded s))
         then int (length (takeWhile (\<lambda>t. t \<noteq> tg) (map tag (loaded s)))) else - 1)"
proof (cases "tg \<in> set (map tag (loaded s))")
  case True
  let ?tags = "map tag (loaded s)"
  let ?k = "length (takeWhile (\<lambda>t. t \<noteq> tg) ?tags)"
  note fm = first_match_takeWhile[OF True]
  from fm(1) have k: "int ?k < m_loadedTextures s" using length_loaded[OF wf] by simp
  have hit: "tag (m_textureIDs s ! ?k) = tg"
    using fm(2) loaded_nth(1)[OF wf k, symmetric] by (simp only:)
  have before: "\<forall>j<?k. tag (m_textureIDs s ! j) \<noteq> tg"
  proof (intro allI impI)
    fix j assume j: "j < ?k"
    with k have "int j < m_loadedTextures s" by simp
    from loaded_nth(1)[OF wf this] have "tag (m_textureIDs s ! j) = ?tags ! j" by (rule sym)
    moreover from fm(3) j have "?tags ! j \<noteq> tg" by blast
    ultimately show "tag (m_textureIDs s ! j) \<noteq> tg" by metis
  qed
  from wf have wf': "m_loadedTextures s \<le> int (length (m_textureIDs s))"
    by (simp add: well_formed_def)
  from FindTextureSlot_while_hit[OF wf' k hit before, of 0 "- 1"] True show ?thesis
    by (simp add: FindTextureSlot_def)
next
  case False
  have none: "\<forall>k. int k < m_loadedTextures s \<longrightarrow> tag (m_textureIDs s ! k) \<noteq> tg"
  proof (intro allI impI)
    fix k assume k: "int k < m_loadedTextures s"
    from loaded_nth[OF wf k] have "tag (m_textureIDs s ! k) \<in> set (map tag (loaded s))"
      by (metis nth_mem)
    with False show "tag (m_textureIDs s ! k) \<noteq> tg" by blast
  qed
  from wf have wf': "m_loadedTextures s \<le> int (length (m_textureIDs s))"
    by (simp add: well_formed_def)
  from FindTextureSlot_while_miss[OF wf' none, of "- 1" 0] False show ?thesis
    by (simp add: FindTextureSlot_def)
qed

lemma FindMaterial_registered:
  assumes "registered s tg"
  shows "\<exists>e\<in>set (m_objectMaterials s).
     FindMaterial s tg material =
       (True, material\<lparr>diffuseColor := diffuseColor e, specularColor := specularColor e,
                       shininess := shininess e\<rparr>)"
proof -
  from assms have "\<exists>e\<in>set (m_objectMaterials s). OBJECT_MATERIAL.tag e = tg"
    by (simp add: registered_def)
  from first_match[OF this] obtain k where k: "k < length (m_objectMaterials s)"
    "OBJECT_MATERIAL.tag (m_objectMaterials s ! k) = tg"
    "\<forall>j<k. OBJECT_MATERIAL.tag (m_objectMaterials s ! j) \<noteq> tg" by blast
  from k(1) have ne: "length (m_objectMaterials s) \<noteq> 0" by auto
  from FindMaterial_while_hit[OF k, of 0 material] ne
  have "FindMaterial s tg material =
       (True, material\<lparr>diffuseColor := diffuseColor (m_objectMaterials s ! k),
                       specularColor := specularColor (m_objectMaterials s ! k),
                       shininess := shininess (m_objectMaterials s ! k)\<rparr>)"
    by (simp add: FindMaterial_def)
  with k(1) show ?thesis by (metis nth_mem)
qed

lemma SetShaderMaterial_registered:
  assumes "registered s tg"
  shows "SetShaderMaterial tg dflt1 s = SetShaderMaterial tg dflt2 s"
proof -
  from assms have ne: "m_objectMaterials s \<noteq> []" by (auto simp: registered_def)
  from assms have "\<exists>e\<in>set (m_objectMaterials s). OBJECT_MATERIAL.tag e = tg"
    by (simp add: registered_def)
  from first_match[OF this] obtain k where k: "k < length (m_objectMaterials s)"
    "OBJECT_MATERIAL.tag (m_objectMaterials s ! k) = tg"
    "\<forall>j<k. OBJECT_MATERIAL.tag (m_objectMaterials s ! j) \<noteq> tg" by blast
  have "\<And>material. FindMaterial s tg material =
       (True, material\<lparr>diffuseColor := diffuseColor (m_objectMaterials s ! k),
                       specularColor := specularColor (m_objectMaterials s ! k),
                       shininess := shininess (m_objectMaterials s ! k)\<rparr>)"
    using FindMaterial_while_hit[OF k, of 0] ne by (simp add: FindMaterial_def)
  then show ?thesis using ne by (simp add: SetShaderMaterial_def)
qed

lemma FindMaterial_same_materials:
  "m_objectMaterials s1 = m_objectMaterials s2 \<Longrightarrow>
   FindMaterial_while s1 tg material i b = FindMaterial_while s2 tg material i b"
proof (induction s1 tg material i b rule: FindMaterial_while.induct)
  case (1 s tg material index bFound)
  show ?case
    using 1
    by (subst FindMaterial_while.simps, subst (2) FindMaterial_while.simps) auto
qed

lemma steady_run: "list_all steady as \<Longrightarrow> steady (run as)"
  by (induction as) (auto simp: steady_def)

lemma steady_SetTransformations [simp]: "steady (SetTransformations sc a b c p)"
  by (simp add: steady_def SetTransformations_def same_registry_def)

lemma steady_SetTextureUVScale [simp]: "steady (SetTextureUVScale u v)"
  by (simp add: steady_def SetTextureUVScale_def same_registry_def)

lemma steady_SetShaderColor [simp]: "steady (SetShaderColor cr cg cb ca)"
  by (simp add: steady_def SetShaderColor_def same_registry_def)

lemma steady_SetShaderTexture [simp]: "steady (SetShaderTexture tg)"
  by (simp add: steady_def SetShaderTexture_def same_registry_def FindTextureSlot_loaded)

lemma steady_m_basicMeshes [simp]: "steady (m_basicMeshes call)"
  by (simp add: steady_def m_basicMeshes_def)

lemma steady_SetShaderMaterial:
  assumes "tg \<in> set scene_materials"
  shows "steady (SetShaderMaterial tg)"
  unfolding steady_def
proof (intro allI impI)
  fix dflt1 s1 dflt2 s2
  assume h: "same_registry s1 s2 \<and> materials_settled dflt1 s1 dflt2"
  then have mats: "m_objectMaterials s1 = m_objectMaterials s2"
    and sm: "m_pShaderManager s1 = m_pShaderManager s2" by (simp_all add: same_registry_def)
  have states: "\<And>d. SetShaderMaterial tg d s1 = SetShaderMaterial tg d s2"
    using mats sm FindMaterial_same_materials[OF mats]
    by (simp add: SetShaderMaterial_def FindMaterial_def)
  from h consider "dflt1 = dflt2" | "m_objectMaterials s1 = []"
    | "list_all (registered s1) scene_materials"
    by (auto simp: materials_settled_def)
  then show "SetShaderMaterial tg dflt1 s1 = SetShaderMaterial tg dflt2 s2"
  proof cases
    case 1
    with states show ?thesis by simp
  next
    case 2
    with mats show ?thesis by (simp add: SetShaderMaterial_def)
  next
    case 3
    with assms have "registered s1 tg" by (simp add: list_all_iff)
    from SetShaderMaterial_registered[OF this, of dflt1 dflt2] states show ?thesis by simp
  qed
qed

lemma steady_SetShaderMaterial_scene [simp]:
  "steady (SetShaderMaterial ''woodFloor'')" "steady (SetShaderMaterial ''wall'')"
  "steady (SetShaderMaterial ''porcelain'')" "steady (SetShaderMaterial ''wood'')"
  "steady (SetShaderMaterial ''metal'')" "steady (SetShaderMaterial ''cloth'')"
  "steady (SetShaderMaterial ''plastic'')" "steady (SetShaderMaterial ''BookCover'')"
  by (rule steady_SetShaderMaterial, simp add: scene_materials_def)+

lemma steady_LoadLamp [simp]: "steady (LoadLamp x y z)"
  unfolding LoadLamp_def by (rule steady_run) simp

lemma steady_LoadMonitor [simp]: "steady (LoadMonitor x y z)"
  unfolding LoadMonitor_def by (rule steady_run) simp

lemma steady_GenerateKeyCap [simp]: "steady (GenerateKeyCap x y z)"
  unfolding GenerateKeyCap_def by (rule steady_run) simp

lemma steady_LoadMouse [simp]: "steady (LoadMouse x y z)"
  unfolding LoadMouse_def by (rule steady_run) simp

lemma steady_LoadPhone [simp]: "steady (LoadPhone x y z)"
  unfolding LoadPhone_def by (rule steady_run) simp

lemma steady_LoadBook [simp]: "steady (LoadBook x y z xr yr zr)"
  unfolding LoadBook_def by (rule steady_run) simp

lemma steady_andThen:
  "a1 = a2 \<Longrightarrow> b1 = b2 \<Longrightarrow> andThen a1 b1 = andThen a2 b2"
  by simp

lemma LoadKeyboard_for_i_unfold:
  "LoadKeyboard_for_i x y z yMod zMod i keySpace dflt s =
    (if i < 19 then
       andThen (GenerateKeyCap (x + keySpace) (y + yMod) (z + zMod) dflt s)
         (LoadKeyboard_for_i x y z yMod zMod (i + 1) (keySpace + 0.1) dflt s)
     else Inr [])"
  by (subst LoadKeyboard_for_i.simps) simp

lemma LoadKeyboard_for_j_unfold:
  "LoadKeyboard_for_j x y z j keySpace yMod zMod dflt s =
    (if j < 3 then
       andThen (LoadKeyboard_for_i x y z yMod zMod 0 keySpace dflt s)
         (LoadKeyboard_for_j x y z (j + 1) 0 (yMod - 0.025) (zMod + 0.15) dflt s)
     else Inr [])"
  by (subst LoadKeyboard_for_j.simps) simp

lemma RenderScene_for_unfold:
  "RenderScene_for i BookSpacer dflt s =
    (if i < 8 then
       andThen (LoadBook BookSpacer 0.25 (- 6.35) 0 0 0 dflt s)
         (RenderScene_for (i + 1) (BookSpacer + 0.25) dflt s)
     else Inr [])"
  by (subst RenderScene_for.simps) simp

lemma steady_LoadKeyboard_for_i [simp]:
  "steady (LoadKeyboard_for_i x y z yMod zMod i keySpace)"
  unfolding steady_def
proof (intro allI impI)
  fix dflt1 s1 dflt2 s2
  assume h: "same_registry s1 s2 \<and> materials_settled dflt1 s1 dflt2"
  show "LoadKeyboard_for_i x y z yMod zMod i keySpace dflt1 s1 =
        LoadKeyboard_for_i x y z yMod zMod i keySpace dflt2 s2"
  proof (induction "nat (19 - i)" arbitrary: i keySpace)
    case 0
    then have "\<not> i < 19" by simp
    then show ?case
      by (subst LoadKeyboard_for_i_unfold, subst (2) LoadKeyboard_for_i_unfold) simp
  next
    case (Suc n)
    then have lt: "i < 19" and n: "n = nat (19 - (i + 1))" by simp_all
    have cap: "GenerateKeyCap (x + keySpace) (y + yMod) (z + zMod) dflt1 s1 =
        GenerateKeyCap (x + keySpace) (y + yMod) (z + zMod) dflt2 s2"
      using steady_GenerateKeyCap h unfolding steady_def by blast
    show ?case
      using lt
      by (subst LoadKeyboard_for_i_unfold, subst (2) LoadKeyboard_for_i_unfold)
         (simp only: if_True steady_andThen[OF cap Suc.hyps(1)[OF n]])
  qed
qed

lemma steady_LoadKeyboard_for_j [simp]:
  "steady (LoadKeyboard_for_j x y z j keySpace yMod zMod)"
  unfolding steady_def
proof (intro allI impI)
  fix dflt1 s1 dflt2 s2
  assume h: "same_registry s1 s2 \<and> materials_settled dflt1 s1 dflt2"
  show "LoadKeyboard_for_j x y z j keySpace yMod zMod dflt1 s1 =
        LoadKeyboard_for_j x y z j keySpace yMod zMod dflt2 s2"
  proof (induction "nat (3 - j)" arbitrary: j keySpace yMod zMod)
    case 0
    then have "\<not> j < 3" by simp
    then show ?case
      by (subst LoadKeyboard_for_j_unfold, subst (2) LoadKeyboard_for_j_unfold) simp
  next
    case (Suc n)
    then have lt: "j < 3" and n: "n = nat (3 - (j + 1))" by simp_all
    have row: "LoadKeyboard_for_i x y z yMod zMod 0 keySpace dflt1 s1 =
        LoadKeyboard_for_i x y z yMod zMod 0 keySpace dflt2 s2"
      using steady_LoadKeyboard_for_i h unfolding steady_def by blast
    show ?case
      using lt
      by (subst LoadKeyboard_for_j_unfold, subst (2) LoadKeyboard_for_j_unfold)
         (simp only: if_True steady_andThen[OF row Suc.hyps(1)[OF n]])
  qed
qed

lemma steady_LoadKeyboard [simp]: "steady (LoadKeyboard x y z)"
  unfolding LoadKeyboard_def by (rule steady_run) simp

lemma steady_RenderScene_for [simp]: "steady (RenderScene_for i BookSpacer)"
  unfolding steady_def
proof (intro allI impI)
  fix dflt1 s1 dflt2 s2
  assume h: "same_registry s1 s2 \<and> materials_settled dflt1 s1 dflt2"
  show "RenderScene_for i BookSpacer dflt1 s1 = RenderScene_for i BookSpacer dflt2 s2"
  proof (induction "nat (8 - i)" arbitrary: i BookSpacer)
    case 0
    then have "\<not> i < 8" by simp
    then show ?case
      by (subst RenderScene_for_unfold, subst (2) RenderScene_for_unfold) simp
  next
    case (Suc n)
    then have lt: "i < 8" and n: "n = nat (8 - (i + 1))" by simp_all
    have book: "LoadBook BookSpacer 0.25 (- 6.35) 0 0 0 dflt1 s1 =
        LoadBook BookSpacer 0.25 (- 6.35) 0 0 0 dflt2 s2"
      using steady_LoadBook h unfolding steady_def by blast
    show ?case
      using lt
      by (subst RenderScene_for_unfold, subst (2) RenderScene_for_unfold)
         (simp only: if_True steady_andThen[OF book Suc.hyps(1)[OF n]])
  qed
qed


section \<open>The placement routines and their offsets\<close>

text \<open>
  Sequencing commutes with moving the events; \<open>SetTransformations\<close> at a shifted
  position (and turned angles) is \<open>SetTransformations\<close> moved; the other setters
  and the draw calls issue nothing that moves.
\<close>

lemma andThen_simps [simp]:
  "andThen (Inl e) r = Inl e"
  "andThen (Inr es) (Inl e) = Inl e"
  "andThen (Inr es) (Inr es') = Inr (es @ es')"
  by (simp_all add: andThen_def)

























section \<open>The meshes drawn\<close>




lemma draws_within_SetTransformations [simp]: "draws_within S (SetTransformations sc a b c p)"
  by (simp add: draws_within_def SetTransformations_def)

lemma draws_within_SetTextureUVScale [simp]: "draws_within S (SetTextureUVScale u v)"
  by (simp add: draws_within_def SetTextureUVScale_def)

lemma draws_within_SetShaderColor [simp]: "draws_within S (SetShaderColor cr cg cb ca)"
  by (simp add: draws_within_def SetShaderColor_def)

lemma draws_within_SetShaderTexture [simp]: "draws_within S (SetShaderTexture tg)"
  by (simp add: draws_within_def SetShaderTexture_def can_render_def
      FindTextureSlot_loaded)

lemma draws_within_SetShaderMaterial [simp]: "draws_within S (SetShaderMaterial tg)"
  by (auto simp: draws_within_def SetShaderMaterial_def can_render_def
      FindMaterial_def)

lemma draws_within_m_basicMeshes:
  "set (List.map_filter drawn_shape [call]) \<subseteq> S \<Longrightarrow> draws_within S (m_basicMeshes call)"
  by (simp add: draws_within_def m_basicMeshes_def)

lemma draws_within_draw [simp]:
  "Plane \<in> S \<Longrightarrow> draws_within S (m_basicMeshes DrawPlaneMesh)"
  "Box \<in> S \<Longrightarrow> draws_within S (m_basicMeshes DrawBoxMesh)"
  "Box \<in> S \<Longrightarrow> draws_within S (m_basicMeshes (DrawBoxMeshSide side))"
  "Cylinder \<in> S \<Longrightarrow> draws_within S (m_basicMeshes DrawCylinderMesh)"
  "TaperedCylinder \<in> S \<Longrightarrow> draws_within S (m_basicMeshes (DrawTaperedCylinderMesh t b sides))"
  "Torus \<in> S \<Longrightarrow> draws_within S (m_basicMeshes DrawTorusMesh)"
  "HalfTorus \<in> S \<Longrightarrow> draws_within S (m_basicMeshes DrawHalfTorusMesh)"
  "Sphere \<in> S \<Longrightarrow> draws_within S (m_basicMeshes DrawSphereMesh)"
  by (rule draws_within_m_basicMeshes, simp)+















section \<open>Preparing the scene\<close>














section \<open>Rendering the prepared scene\<close>






end
